theory Spec2Isabelle
  imports Main "HOL-Library.Multiset"
begin

section \<open>The typed HTTP invocation layer of cli/cliutils/cliutils.go\<close>

text \<open>
  Go strings and byte slices are both sequences of bytes; both are modelled as
  \<open>string\<close> (a list of 8-bit characters), so the conversions \<open>[]byte(s)\<close> and
  \<open>string(b)\<close> are the identity. Go's \<open>int\<close> carries HTTP status codes and exit
  codes only; no arithmetic is done on it, so it is modelled as \<open>int\<close>. A Go \<open>error\<close>
  value is modelled by its text.
\<close>

subsection \<open>Constants\<close>

definition JSON_INDENT :: string where "JSON_INDENT = ''  ''"
definition HZN_API :: string where "HZN_API = ''http://localhost''"
definition HZN_API_MAC :: string where "HZN_API_MAC = ''http://localhost:8081''"

definition CLI_INPUT_ERROR :: int where "CLI_INPUT_ERROR = 1"
definition JSON_PARSING_ERROR :: int where "JSON_PARSING_ERROR = 3"
definition FILE_IO_ERROR :: int where "FILE_IO_ERROR = 4"
definition HTTP_ERROR :: int where "HTTP_ERROR = 5"

definition MethodGet :: string where "MethodGet = ''GET''"
definition MethodDelete :: string where "MethodDelete = ''DELETE''"

subsection \<open>How a call ends\<close>

text \<open>
  \<open>Return v\<close>: the function returns \<open>v\<close> to its caller.
  \<open>Fatal c\<close>: the function called \<open>Fatal(c, ...)\<close>, which prints to stderr and ends the
  process with \<open>os.Exit(c)\<close>; the text printed is not modelled.
  \<open>Panic\<close>: a Go run-time panic (an index out of range).
\<close>

datatype 'a outcome = Return 'a | Fatal int | Panic

subsection \<open>isGoodCode\<close>

text \<open>The \<open>for _, code := range goodHttpCodes\<close> loop of \<open>isGoodCode\<close>.\<close>

fun isGoodCode_range :: "int \<Rightarrow> int list \<Rightarrow> bool" where
  "isGoodCode_range actualHttpCode [] = False"
| "isGoodCode_range actualHttpCode (code # rest) =
     (if code = actualHttpCode then True else isGoodCode_range actualHttpCode rest)"

definition isGoodCode :: "int \<Rightarrow> int list \<Rightarrow> bool" where
  "isGoodCode actualHttpCode goodHttpCodes =
     (if length goodHttpCodes = 0 then True
      else isGoodCode_range actualHttpCode goodHttpCodes)"

subsection \<open>The process and its surroundings\<close>

text \<open>
  A request as \<open>net/http\<close> holds it: headers in the order of the \<open>Header.Add\<close> calls.
  A response: its status code, the bytes its body yields, and the error (if any) with
  which reading the body ends.
\<close>

record request =
  Method :: string
  URL :: string
  Header :: "(string \<times> string) list"
  ReqBody :: "string option"

record response =
  StatusCode :: int
  Body :: string
  BodyErr :: "string option"

text \<open>
  What the functions read from outside: the environment (\<open>os.Getenv\<close>, the empty
  string for an unset variable), \<open>runtime.GOOS\<close>, the dry-run flag \<open>*Opts.IsDryRun\<close>,
  the error (if any) of \<open>http.NewRequest\<close> for a method and a URL, and what the
  transport answers to a request (\<open>Inl\<close> the error of \<open>Client.Do\<close>).
  The verbosity flag and the lines \<open>Verbose\<close> prints on stderr are not modelled.
\<close>

record world =
  Getenv :: "string \<Rightarrow> string"
  GOOS :: string
  IsDryRun :: bool
  NewRequest_err :: "string \<Rightarrow> string \<Rightarrow> string option"
  RoundTrip :: "request \<Rightarrow> string + response"

text \<open>What a call does to the network: the requests it builds and the ones it sends.\<close>

datatype event = Constructed request | Sent request

definition NewRequest :: "world \<Rightarrow> string \<Rightarrow> string \<Rightarrow> string option \<Rightarrow> string + request" where
  "NewRequest w method url body =
     (case NewRequest_err w method url of
        Some err \<Rightarrow> Inl err
      | None \<Rightarrow> Inr \<lparr>Method = method, URL = url, Header = [], ReqBody = body\<rparr>)"

definition Header_Add :: "request \<Rightarrow> string \<Rightarrow> string \<Rightarrow> request" where
  "Header_Add req key val = req\<lparr>Header := Header req @ [(key, val)]\<rparr>"

text \<open>\<open>http.Get(url)\<close>: \<open>NewRequest("GET", url, nil)\<close>, then \<open>Do\<close>.\<close>

definition http_Get :: "world \<Rightarrow> string \<Rightarrow> (string + response) \<times> event list" where
  "http_Get w url =
     (case NewRequest w MethodGet url None of
        Inl err \<Rightarrow> (Inl err, [])
      | Inr req \<Rightarrow> (RoundTrip w req, [Constructed req, Sent req]))"

definition ReadAll :: "response \<Rightarrow> string + string" where
  "ReadAll resp = (case BodyErr resp of Some err \<Rightarrow> Inl err | None \<Rightarrow> Inr (Body resp))"

text \<open>\<open>GetRespBodyAsString\<close> drops the error of \<open>buf.ReadFrom\<close> and returns what was read.\<close>

definition GetRespBodyAsString :: "response \<Rightarrow> string" where
  "GetRespBodyAsString resp = Body resp"

subsection \<open>strconv.Itoa and base64.StdEncoding\<close>

fun digits :: "nat \<Rightarrow> string" where
  "digits n =
     (if n < 10 then [''0123456789'' ! n]
      else digits (n div 10) @ [''0123456789'' ! (n mod 10)])"

declare digits.simps [simp del]

definition Itoa :: "int \<Rightarrow> string" where
  "Itoa i = (if i < 0 then CHR ''-'' # digits (nat (- i)) else digits (nat i))"

definition encodeStd :: string where
  "encodeStd = ''ABCDEFGHIJKLMNOPQRSTUVWXYZabcdefghijklmnopqrstuvwxyz0123456789+/''"

text \<open>
  \<open>base64.StdEncoding.EncodeToString\<close>: three bytes give four characters of the
  alphabet; a rest of two or one bytes is padded with \<open>=\<close>.
\<close>

fun EncodeToString :: "string \<Rightarrow> string" where
  "EncodeToString (a # b # c # rest) =
     (let val = (of_char a :: nat) * 65536 + of_char b * 256 + of_char c in
      [encodeStd ! (val div 262144 mod 64), encodeStd ! (val div 4096 mod 64),
       encodeStd ! (val div 64 mod 64), encodeStd ! (val mod 64)] @ EncodeToString rest)"
| "EncodeToString [a, b] =
     (let val = (of_char a :: nat) * 65536 + of_char b * 256 in
      [encodeStd ! (val div 262144 mod 64), encodeStd ! (val div 4096 mod 64),
       encodeStd ! (val div 64 mod 64), CHR ''=''])"
| "EncodeToString [a] =
     (let val = (of_char a :: nat) * 65536 in
      [encodeStd ! (val div 262144 mod 64), encodeStd ! (val div 4096 mod 64),
       CHR ''='', CHR ''=''])"
| "EncodeToString [] = []"

subsection \<open>Targets, bodies and encoding/json\<close>

text \<open>
  The dynamic type of the \<open>structure interface{}\<close> argument of the GET functions, as
  their type switches tell it apart: \<open>nil\<close>, \<open>*[]byte\<close>, \<open>*string\<close>, or a pointer to
  anything else (described by a \<open>'t\<close>). What a call leaves in the target: nothing, a
  string, bytes, or a decoded value. A typed nil pointer is not modelled, and neither
  is what a failed \<open>json.Unmarshal\<close> leaves behind.
\<close>

datatype 't target = NilStructure | PtrBytes | PtrString | PtrOther 't

datatype 'v stored = Unchanged | StoredString string | StoredBytes string | StoredValue 'v

text \<open>The dynamic type of the \<open>body interface{}\<close> argument of the PUT/POST functions.\<close>

datatype 'b body = Bytes string | Str string | Other 'b

text \<open>
  The functions of \<open>encoding/json\<close> that are called, as parameters:
  \<open>Unmarshal data structure\<close> is \<open>json.Unmarshal(data, structure)\<close>,
  \<open>Unmarshal_any\<close> is \<open>json.Unmarshal\<close> into an empty \<open>interface{}\<close>,
  \<open>MarshalIndent v prefix indent\<close> and \<open>Marshal v\<close> are the functions of these names.
\<close>

record ('t, 'v, 'j, 'b) encoding_json =
  Unmarshal :: "string \<Rightarrow> 't target \<Rightarrow> string + 'v"
  Unmarshal_any :: "string \<Rightarrow> string + 'j"
  MarshalIndent :: "'j \<Rightarrow> string \<Rightarrow> string \<Rightarrow> string + string"
  Marshal :: "'b \<Rightarrow> string + string"

subsection \<open>Small helpers\<close>

definition WithDefaultEnvVar :: "world \<Rightarrow> string \<Rightarrow> string \<Rightarrow> string" where
  "WithDefaultEnvVar w flag envVarName =
     (if flag \<noteq> '''' then flag
      else let newFlag = Getenv w envVarName in
           if newFlag \<noteq> '''' then newFlag else flag)"

definition GetHorizonUrlBase :: "world \<Rightarrow> string" where
  "GetHorizonUrlBase w =
     (let envVar = Getenv w ''HORIZON_URL'' in
      if envVar \<noteq> '''' then envVar
      else if GOOS w = ''darwin'' then HZN_API_MAC else HZN_API)"

text \<open>Both branches differ in the message only.\<close>

definition printHorizonRestError :: "world \<Rightarrow> string \<Rightarrow> string \<Rightarrow> 'a outcome" where
  "printHorizonRestError w apiMethod err =
     (if Getenv w ''HORIZON_URL'' = '''' then Fatal HTTP_ERROR else Fatal HTTP_ERROR)"

definition printHorizonExchRestError :: "world \<Rightarrow> string \<Rightarrow> string \<Rightarrow> 'a outcome" where
  "printHorizonExchRestError w apiMethod err =
     (if Getenv w ''HZN_EXCHANGE_URL'' = '''' then Fatal HTTP_ERROR else Fatal HTTP_ERROR)"


subsection \<open>The local agent: HorizonGet, HorizonDelete, HorizonPutPost\<close>

text \<open>
  \<open>HorizonGet\<close> returns its named results \<open>(httpCode, retError)\<close> and what it left in
  \<open>structure\<close>. The part of the function after \<open>http.Get\<close> has answered is
  \<open>HorizonGet_response\<close>: \<open>goodHttpCodes[0]\<close> is evaluated after the status check
  whatever the list is, and on an empty list Go panics there.
\<close>

definition HorizonGet_response ::
  "('t, 'v, 'j, 'b) encoding_json \<Rightarrow> string \<Rightarrow> int list \<Rightarrow> 't target \<Rightarrow> bool \<Rightarrow> response
   \<Rightarrow> (int \<times> string option \<times> 'v stored) outcome" where
  "HorizonGet_response j apiMsg goodHttpCodes structure quiet resp =
     (let httpCode = StatusCode resp in
      if \<not> isGoodCode httpCode goodHttpCodes then
        (if quiet then
           Return (httpCode,
             Some (''Bad HTTP code from '' @ apiMsg @ '': '' @ Itoa httpCode), Unchanged)
         else Fatal HTTP_ERROR)
      else
        (case goodHttpCodes of
           [] \<Rightarrow> Panic
         | first # others \<Rightarrow>
             if httpCode = first then
               (case ReadAll resp of
                  Inl err \<Rightarrow>
                    if quiet then
                      Return (httpCode,
                        Some (''Failed to read body response from '' @ apiMsg @ '': '' @ err),
                        Unchanged)
                    else Fatal HTTP_ERROR
                | Inr bodyBytes \<Rightarrow>
                    (case structure of
                       PtrString \<Rightarrow> Return (httpCode, None, StoredString bodyBytes)
                     | _ \<Rightarrow>
                         (case Unmarshal j bodyBytes structure of
                            Inl err \<Rightarrow>
                              if quiet then
                                Return (httpCode,
                                  Some (''Failed to unmarshal body response from '' @ apiMsg
                                    @ '': '' @ err), Unchanged)
                              else Fatal JSON_PARSING_ERROR
                          | Inr v \<Rightarrow> Return (httpCode, None, StoredValue v))))
             else Return (httpCode, None, Unchanged)))"

definition HorizonGet ::
  "('t, 'v, 'j, 'b) encoding_json \<Rightarrow> world \<Rightarrow> string \<Rightarrow> int list \<Rightarrow> 't target \<Rightarrow> bool
   \<Rightarrow> (int \<times> string option \<times> 'v stored) outcome \<times> event list" where
  "HorizonGet j w urlSuffix goodHttpCodes structure quiet =
     (let url = GetHorizonUrlBase w @ ''/'' @ urlSuffix;
          apiMsg = MethodGet @ '' '' @ url
      in case http_Get w url of
        (Inl err, evs) \<Rightarrow>
          (if quiet then
             (if Getenv w ''HORIZON_URL'' = '''' then
                Return (0, Some (''Can't connect to the Horizon REST API to run '' @ apiMsg
                  @ ''. Run 'systemctl status horizon' to check if the Horizon agent is running. Or set HORIZON_URL to connect to another local port that is connected to a remote Horizon agent via a ssh tunnel. Specific error is: ''
                  @ err), Unchanged)
              else
                Return (0, Some (''Can't connect to the Horizon REST API to run '' @ apiMsg
                  @ ''. Maybe the ssh tunnel associated with that port is down? Or maybe the remote Horizon agent at the other end of that tunnel is down. Specific error is: ''
                  @ err), Unchanged))
           else printHorizonRestError w apiMsg err, evs)
      | (Inr resp, evs) \<Rightarrow>
          (HorizonGet_response j apiMsg goodHttpCodes structure quiet resp, evs))"

definition HorizonDelete :: "world \<Rightarrow> string \<Rightarrow> int list \<Rightarrow> int outcome \<times> event list" where
  "HorizonDelete w urlSuffix goodHttpCodes =
     (let url = GetHorizonUrlBase w @ ''/'' @ urlSuffix;
          apiMsg = MethodDelete @ '' '' @ url
      in if IsDryRun w then (Return 204, [])
         else
           (case NewRequest w MethodDelete url None of
              Inl err \<Rightarrow> (Fatal HTTP_ERROR, [])
            | Inr req \<Rightarrow>
                (case RoundTrip w req of
                   Inl err \<Rightarrow> printHorizonRestError w apiMsg err
                 | Inr resp \<Rightarrow>
                     let httpCode = StatusCode resp in
                     if \<not> isGoodCode httpCode goodHttpCodes then Fatal HTTP_ERROR
                     else Return httpCode,
                 [Constructed req, Sent req])))"

text \<open>
  The \<open>switch b := body.(type)\<close> of \<open>HorizonPutPost\<close>: the bytes to send and
  \<open>bodyIsBytes\<close>, or the error of \<open>json.Marshal\<close>.
\<close>

definition HorizonPutPost_body ::
  "('t, 'v, 'j, 'b) encoding_json \<Rightarrow> 'b body \<Rightarrow> string + (string \<times> bool)" where
  "HorizonPutPost_body j body =
     (case body of
        Bytes b \<Rightarrow> Inr (b, True)
      | Str b \<Rightarrow> Inr (b, True)
      | Other s \<Rightarrow>
          (case Marshal j s of Inl err \<Rightarrow> Inl err | Inr jsonBytes \<Rightarrow> Inr (jsonBytes, False)))"

definition HorizonPutPost ::
  "('t, 'v, 'j, 'b) encoding_json \<Rightarrow> world \<Rightarrow> string \<Rightarrow> string \<Rightarrow> int list \<Rightarrow> 'b body
   \<Rightarrow> (int \<times> string) outcome \<times> event list" where
  "HorizonPutPost j w method urlSuffix goodHttpCodes body =
     (let url = GetHorizonUrlBase w @ ''/'' @ urlSuffix;
          apiMsg = method @ '' '' @ url
      in if IsDryRun w then (Return (201, ''''), [])
         else
           (case HorizonPutPost_body j body of
              Inl err \<Rightarrow> (Fatal JSON_PARSING_ERROR, [])
            | Inr (jsonBytes, bodyIsBytes) \<Rightarrow>
                (case NewRequest w method url (Some jsonBytes) of
                   Inl err \<Rightarrow> (Fatal HTTP_ERROR, [])
                 | Inr req0 \<Rightarrow>
                     let req1 = Header_Add req0 ''Accept'' ''application/json'';
                         req = (if bodyIsBytes
                                then Header_Add req1 ''Content-Length''
                                       (Itoa (int (length jsonBytes)))
                                else Header_Add req1 ''Content-Type'' ''application/json'')
                     in (case RoundTrip w req of
                           Inl err \<Rightarrow> printHorizonRestError w apiMsg err
                         | Inr resp \<Rightarrow>
                             let httpCode = StatusCode resp;
                                 resp_body = GetRespBodyAsString resp
                             in if \<not> isGoodCode httpCode goodHttpCodes then Fatal HTTP_ERROR
                                else Return (httpCode, resp_body),
                         [Constructed req0, Sent req]))))"

subsection \<open>The registry: ExchangeGet, ExchangePutPost, ExchangeDelete\<close>

text \<open>
  The part of \<open>ExchangeGet\<close> after the status check: the body is decoded when it is
  not empty and the target is not nil.
\<close>

definition ExchangeGet_decode ::
  "('t, 'v, 'j, 'b) encoding_json \<Rightarrow> int \<Rightarrow> string \<Rightarrow> 't target \<Rightarrow> (int \<times> 'v stored) outcome" where
  "ExchangeGet_decode j httpCode bodyBytes structure =
     (if length bodyBytes > 0 \<and> structure \<noteq> NilStructure then
        (case structure of
           PtrBytes \<Rightarrow> Return (httpCode, StoredBytes bodyBytes)
         | PtrString \<Rightarrow>
             (case Unmarshal_any j bodyBytes of
                Inl err \<Rightarrow> Fatal JSON_PARSING_ERROR
              | Inr jsonStruct \<Rightarrow>
                  (case MarshalIndent j jsonStruct '''' JSON_INDENT of
                     Inl err \<Rightarrow> Fatal JSON_PARSING_ERROR
                   | Inr jsonBytes \<Rightarrow> Return (httpCode, StoredString jsonBytes)))
         | _ \<Rightarrow>
             (case Unmarshal j bodyBytes structure of
                Inl err \<Rightarrow> Fatal JSON_PARSING_ERROR
              | Inr v \<Rightarrow> Return (httpCode, StoredValue v)))
      else Return (httpCode, Unchanged))"

text \<open>The part of \<open>ExchangeGet\<close> after \<open>httpClient.Do\<close> has answered.\<close>

definition ExchangeGet_response ::
  "('t, 'v, 'j, 'b) encoding_json \<Rightarrow> int list \<Rightarrow> 't target \<Rightarrow> response
   \<Rightarrow> (int \<times> 'v stored) outcome" where
  "ExchangeGet_response j goodHttpCodes structure resp =
     (case ReadAll resp of
        Inl err \<Rightarrow> Fatal HTTP_ERROR
      | Inr bodyBytes \<Rightarrow>
          let httpCode = StatusCode resp in
          if \<not> isGoodCode httpCode goodHttpCodes then Fatal HTTP_ERROR
          else ExchangeGet_decode j httpCode bodyBytes structure)"

definition ExchangeGet ::
  "('t, 'v, 'j, 'b) encoding_json \<Rightarrow> world \<Rightarrow> string \<Rightarrow> string \<Rightarrow> string \<Rightarrow> int list \<Rightarrow> 't target
   \<Rightarrow> (int \<times> 'v stored) outcome \<times> event list" where
  "ExchangeGet j w urlBase urlSuffix credentials goodHttpCodes structure =
     (let url = urlBase @ ''/'' @ urlSuffix;
          apiMsg = MethodGet @ '' '' @ url
      in case NewRequest w MethodGet url None of
           Inl err \<Rightarrow> (Fatal HTTP_ERROR, [])
         | Inr req0 \<Rightarrow>
             let req1 = Header_Add req0 ''Accept'' ''application/json'';
                 req = (if credentials \<noteq> ''''
                        then Header_Add req1 ''Authorization''
                               (''Basic '' @ EncodeToString credentials)
                        else req1)
             in (case RoundTrip w req of
                   Inl err \<Rightarrow> printHorizonExchRestError w apiMsg err
                 | Inr resp \<Rightarrow> ExchangeGet_response j goodHttpCodes structure resp,
                 [Constructed req0, Sent req]))"

text \<open>
  The \<open>switch b := body.(type)\<close> of \<open>ExchangePutPost\<close>: here the \<open>string\<close> case does
  not set \<open>bodyIsBytes\<close>.
\<close>

definition ExchangePutPost_body ::
  "('t, 'v, 'j, 'b) encoding_json \<Rightarrow> 'b body \<Rightarrow> string + (string \<times> bool)" where
  "ExchangePutPost_body j body =
     (case body of
        Bytes b \<Rightarrow> Inr (b, True)
      | Str b \<Rightarrow> Inr (b, False)
      | Other s \<Rightarrow>
          (case Marshal j s of Inl err \<Rightarrow> Inl err | Inr jsonBytes \<Rightarrow> Inr (jsonBytes, False)))"

text \<open>
  On a bad status code \<open>ExchangePutPost\<close> reads the body and tries to decode it as a
  \<open>PostDeviceResponse\<close>; each of the three ways out is \<open>Fatal(HTTP_ERROR, ...)\<close> and
  they differ in the message only.
\<close>

definition ExchangePutPost ::
  "('t, 'v, 'j, 'b) encoding_json \<Rightarrow> world \<Rightarrow> string \<Rightarrow> string \<Rightarrow> string \<Rightarrow> string \<Rightarrow> int list
   \<Rightarrow> 'b body \<Rightarrow> int outcome \<times> event list" where
  "ExchangePutPost j w method urlBase urlSuffix credentials goodHttpCodes body =
     (let url = urlBase @ ''/'' @ urlSuffix;
          apiMsg = method @ '' '' @ url
      in if IsDryRun w then (Return 201, [])
         else
           (case ExchangePutPost_body j body of
              Inl err \<Rightarrow> (Fatal JSON_PARSING_ERROR, [])
            | Inr (jsonBytes, bodyIsBytes) \<Rightarrow>
                (case NewRequest w method url (Some jsonBytes) of
                   Inl err \<Rightarrow> (Fatal HTTP_ERROR, [])
                 | Inr req0 \<Rightarrow>
                     let req1 = Header_Add req0 ''Accept'' ''application/json'';
                         req2 = (if bodyIsBytes
                                 then Header_Add req1 ''Content-Length''
                                        (Itoa (int (length jsonBytes)))
                                 else Header_Add req1 ''Content-Type'' ''application/json'');
                         req = (if credentials \<noteq> ''''
                                then Header_Add req2 ''Authorization''
                                       (''Basic '' @ EncodeToString credentials)
                                else req2)
                     in (case RoundTrip w req of
                           Inl err \<Rightarrow> printHorizonExchRestError w apiMsg err
                         | Inr resp \<Rightarrow>
                             let httpCode = StatusCode resp in
                             if \<not> isGoodCode httpCode goodHttpCodes then
                               (case ReadAll resp of
                                  Inl err \<Rightarrow> Fatal HTTP_ERROR
                                | Inr bodyBytes \<Rightarrow> Fatal HTTP_ERROR)
                             else Return httpCode,
                         [Constructed req0, Sent req]))))"

definition ExchangeDelete ::
  "world \<Rightarrow> string \<Rightarrow> string \<Rightarrow> string \<Rightarrow> int list \<Rightarrow> int outcome \<times> event list" where
  "ExchangeDelete w urlBase urlSuffix credentials goodHttpCodes =
     (let url = urlBase @ ''/'' @ urlSuffix;
          apiMsg = MethodDelete @ '' '' @ url
      in if IsDryRun w then (Return 204, [])
         else
           (case NewRequest w MethodDelete url None of
              Inl err \<Rightarrow> (Fatal HTTP_ERROR, [])
            | Inr req0 \<Rightarrow>
                let req = Header_Add req0 ''Authorization''
                            (''Basic '' @ EncodeToString credentials)
                in (case RoundTrip w req of
                      Inl err \<Rightarrow> printHorizonExchRestError w apiMsg err
                    | Inr resp \<Rightarrow>
                        let httpCode = StatusCode resp in
                        if \<not> isGoodCode httpCode goodHttpCodes then Fatal HTTP_ERROR
                        else Return httpCode,
                    [Constructed req0, Sent req])))"

subsection \<open>GetExchangeAuth\<close>

definition GetExchangeAuth :: "world \<Rightarrow> string \<Rightarrow> string \<Rightarrow> string outcome" where
  "GetExchangeAuth w userPw nodeIdTok =
     (let credToUse =
        (if userPw \<noteq> '''' then userPw
         else if nodeIdTok \<noteq> '''' then nodeIdTok
         else
           let tmpU = WithDefaultEnvVar w userPw ''HZN_EXCHANGE_USER_AUTH'' in
           if tmpU \<noteq> '''' then tmpU
           else
             let tmpN = WithDefaultEnvVar w nodeIdTok ''HZN_EXCHANGE_NODE_AUTH'' in
             if tmpN \<noteq> '''' then tmpN else '''')
      in if credToUse = '''' then Fatal CLI_INPUT_ERROR else Return credToUse)"

subsection \<open>A sample process for the examples\<close>

text \<open>
  A process whose environment holds the given variables, on Linux, where
  \<open>http.NewRequest\<close> succeeds and the transport gives every request the same answer.
\<close>

definition sample_world :: "(string \<times> string) list \<Rightarrow> bool \<Rightarrow> string + response \<Rightarrow> world" where
  "sample_world vars dry answer =
     \<lparr>Getenv = (\<lambda>name. case map_of vars name of None \<Rightarrow> '''' | Some v \<Rightarrow> v),
      GOOS = ''linux'',
      IsDryRun = dry,
      NewRequest_err = (\<lambda>method url. None),
      RoundTrip = (\<lambda>req. answer)\<rparr>"

definition answer :: "int \<Rightarrow> string \<Rightarrow> string + response" where
  "answer code text = Inr \<lparr>StatusCode = code, Body = text, BodyErr = None\<rparr>"

text \<open>
  A fragment of \<open>encoding/json\<close> for the examples. The typed destination is a \<open>*bool\<close>
  (\<open>PtrOther ()\<close>): \<open>json.Unmarshal\<close> accepts the literals \<open>true\<close> and \<open>false\<close>, and
  \<open>null\<close> (which leaves the zero value), between optional white space, and rejects
  every other input, the empty one included; a nil destination is always an error.
  The body of a PUT/POST is a \<open>bool\<close>. Generic decoding knows the one document
  \<open>{"b":1,"a":2}\<close>, which \<open>json.MarshalIndent\<close> writes back with its keys sorted.
  Every other input is an error in this fragment; that is what \<open>encoding/json\<close> answers
  on the malformed inputs of the examples, not on valid JSON in general.
\<close>

definition json_space :: "char \<Rightarrow> bool" where
  "json_space c = (c = CHR '' '' \<or> c = CHR 0x09 \<or> c = CHR 0x0A \<or> c = CHR 0x0D)"

definition trim_space :: "string \<Rightarrow> string" where
  "trim_space s = rev (dropWhile json_space (rev (dropWhile json_space s)))"

definition sample_Unmarshal :: "string \<Rightarrow> unit target \<Rightarrow> string + bool" where
  "sample_Unmarshal data structure =
     (case structure of
        PtrOther u \<Rightarrow>
          (let lit = trim_space data in
           if lit = ''true'' then Inr True
           else if lit = ''false'' \<or> lit = ''null'' then Inr False
           else Inl ''json: cannot unmarshal into Go value of type bool'')
      | NilStructure \<Rightarrow> Inl ''json: Unmarshal(nil)''
      | _ \<Rightarrow> Inl ''json: destination outside the fragment'')"

datatype sample_doc = Doc_b1_a2

definition sample_Unmarshal_any :: "string \<Rightarrow> string + sample_doc" where
  \<open>sample_Unmarshal_any data =
     (if data = ''{"b":1,"a":2}'' then Inr Doc_b1_a2
      else Inl ''json: input outside the fragment'')\<close>

definition sample_MarshalIndent :: "sample_doc \<Rightarrow> string \<Rightarrow> string \<Rightarrow> string + string" where
  \<open>sample_MarshalIndent v prefix indent =
     (if prefix = '''' \<and> indent = ''  ''
      then Inr ''{\<newline>  "a": 2,\<newline>  "b": 1\<newline>}''
      else Inl ''json: layout outside the fragment'')\<close>

definition sample_Marshal :: "bool \<Rightarrow> string + string" where
  "sample_Marshal v = Inr (if v then ''true'' else ''false'')"

definition sample_json :: "(unit, bool, sample_doc, bool) encoding_json" where
  "sample_json =
     \<lparr>Unmarshal = sample_Unmarshal,
      Unmarshal_any = sample_Unmarshal_any,
      MarshalIndent = sample_MarshalIndent,
      Marshal = sample_Marshal\<rparr>"

text \<open>The requests among the events of a call that went to the transport.\<close>

fun sent :: "event list \<Rightarrow> request list" where
  "sent [] = []"
| "sent (Sent req # evs) = req # sent evs"
| "sent (Constructed req # evs) = sent evs"


section \<open>Properties\<close>

lemma isGoodCode_range_set: "isGoodCode_range c gs = (c \<in> set gs)"
  by (induction gs) auto

lemma isGoodCode_nonempty: "gs \<noteq> [] \<Longrightarrow> isGoodCode c gs = (c \<in> set gs)"
  by (simp add: isGoodCode_def isGoodCode_range_set)

lemma isGoodCode_empty: "isGoodCode c [] = True"
  by (simp add: isGoodCode_def)

text \<open>
  C10. The status acceptance check is a pure function of the observed code and the
  acceptable list. It is true for every observed code when the list is empty; for a
  non-empty list it is true exactly when the observed code occurs in the list; and
  reordering the list does not change the result.
\<close>

theorem isGoodCode_contract:
  "isGoodCode c [] = True
   \<and> (gs \<noteq> [] \<longrightarrow> isGoodCode c gs = (c \<in> set gs))
   \<and> (mset gs = mset gs' \<longrightarrow> isGoodCode c gs = isGoodCode c gs')"
proof (intro conjI impI)
  show "isGoodCode c [] = True" by (rule isGoodCode_empty)
next
  assume "gs \<noteq> []"
  then show "isGoodCode c gs = (c \<in> set gs)" by (rule isGoodCode_nonempty)
next
  assume same: "mset gs = mset gs'"
  then have sets: "set gs = set gs'" by (rule mset_eq_setD)
  from same have "length gs = length gs'" by (rule mset_eq_length)
  with sets show "isGoodCode c gs = isGoodCode c gs'"
    by (simp add: isGoodCode_def isGoodCode_range_set)
qed

theorem isGoodCode_contract_witness:
  "isGoodCode 500 [] = True
   \<and> [200, 404] \<noteq> ([] :: int list) \<and> isGoodCode 404 [200, 404] = (404 \<in> set [200, 404 :: int])
   \<and> isGoodCode 404 [200, 404] \<and> \<not> isGoodCode 500 [200, 404]
   \<and> mset [200, 404] = mset [404, 200 :: int]
   \<and> isGoodCode 404 [200, 404] = isGoodCode 404 [404, 200]"
  using isGoodCode_contract [of 500 "[200, 404]" "[404, 200]"]
        isGoodCode_contract [of 404 "[200, 404]" "[404, 200]"]
  by (simp add: isGoodCode_def)


subsection \<open>Evaluating the examples\<close>

lemmas sample_defs =
  sample_world_def answer_def sample_json_def sample_Unmarshal_def sample_Unmarshal_any_def
  sample_MarshalIndent_def sample_Marshal_def trim_space_def json_space_def
  NewRequest_def Header_Add_def http_Get_def ReadAll_def GetRespBodyAsString_def
  GetHorizonUrlBase_def printHorizonRestError_def printHorizonExchRestError_def
  isGoodCode_def Let_def encodeStd_def Itoa_def digits.simps
  MethodGet_def MethodDelete_def HZN_API_def HZN_API_MAC_def JSON_INDENT_def
  HTTP_ERROR_def JSON_PARSING_ERROR_def CLI_INPUT_ERROR_def

subsection \<open>The dry-run gate\<close>

text \<open>
  C2. When the dry-run flag is set, every mutating call returns a synthetic success at
  once: \<open>HorizonPutPost\<close> returns code 201 and an empty body, \<open>ExchangePutPost\<close> (which
  returns a code only) returns 201, and both DELETE functions return 204. No request is
  built and nothing is sent: the list of network events of the call is empty.
\<close>

theorem dry_run_short_circuits:
  "IsDryRun w \<Longrightarrow>
     HorizonPutPost j w method urlSuffix goodHttpCodes body = (Return (201, ''''), [])
   \<and> ExchangePutPost j w method urlBase urlSuffix credentials goodHttpCodes body = (Return 201, [])
   \<and> HorizonDelete w urlSuffix goodHttpCodes = (Return 204, [])
   \<and> ExchangeDelete w urlBase urlSuffix credentials goodHttpCodes = (Return 204, [])"
  by (simp add: HorizonPutPost_def ExchangePutPost_def HorizonDelete_def ExchangeDelete_def)

theorem dry_run_short_circuits_witness:
  "IsDryRun (sample_world [] True (Inl ''connection refused''))
   \<and> HorizonPutPost sample_json (sample_world [] True (Inl ''connection refused''))
        ''PUT'' ''node'' [201] (Other True) = (Return (201, ''''), [])
   \<and> ExchangePutPost sample_json (sample_world [] True (Inl ''connection refused''))
        ''PUT'' ''https://exchange/v1'' ''orgs/o/nodes/n'' ''o/u:pw'' [201] (Other True)
        = (Return 201, [])
   \<and> HorizonDelete (sample_world [] True (Inl ''connection refused'')) ''node'' [204]
        = (Return 204, [])
   \<and> ExchangeDelete (sample_world [] True (Inl ''connection refused''))
        ''https://exchange/v1'' ''orgs/o/nodes/n'' ''o/u:pw'' [204] = (Return 204, [])"
  using dry_run_short_circuits [of "sample_world [] True (Inl ''connection refused'')"
      sample_json "''PUT''" "''node''" "[201]" "Other True"
      "''https://exchange/v1''" "''o/u:pw''"]
    dry_run_short_circuits [of "sample_world [] True (Inl ''connection refused'')"
      sample_json "''PUT''" "''orgs/o/nodes/n''" "[201]" "Other True"
      "''https://exchange/v1''" "''o/u:pw''"]
    dry_run_short_circuits [of "sample_world [] True (Inl ''connection refused'')"
      sample_json "''PUT''" "''node''" "[204]" "Other True"
      "''https://exchange/v1''" "''o/u:pw''"]
    dry_run_short_circuits [of "sample_world [] True (Inl ''connection refused'')"
      sample_json "''PUT''" "''orgs/o/nodes/n''" "[204]" "Other True"
      "''https://exchange/v1''" "''o/u:pw''"]
  by (simp add: sample_world_def)

subsection \<open>Credential resolution\<close>

text \<open>
  C9. \<open>GetExchangeAuth\<close> returns the first non-empty value among, in this order, the
  user/password argument, the node-identity/token argument, the value of
  \<open>HZN_EXCHANGE_USER_AUTH\<close> and the value of \<open>HZN_EXCHANGE_NODE_AUTH\<close>; when all four
  are empty it ends the process with the input-error exit code.
\<close>

theorem GetExchangeAuth_precedence:
  "GetExchangeAuth w userPw nodeIdTok =
     (case find (\<lambda>s. s \<noteq> '''')
        [userPw, nodeIdTok, Getenv w ''HZN_EXCHANGE_USER_AUTH'',
         Getenv w ''HZN_EXCHANGE_NODE_AUTH''] of
        Some cred \<Rightarrow> Return cred
      | None \<Rightarrow> Fatal CLI_INPUT_ERROR)"
  by (simp add: GetExchangeAuth_def WithDefaultEnvVar_def Let_def)

theorem GetExchangeAuth_precedence_witness:
  "GetExchangeAuth (sample_world [] False (Inl '''')) ''a:b'' ''c:d'' = Return ''a:b''
   \<and> GetExchangeAuth (sample_world [(''HZN_EXCHANGE_USER_AUTH'', ''o/u:pw'')] False (Inl ''''))
        '''' ''c:d'' = Return ''c:d''
   \<and> GetExchangeAuth
        (sample_world [(''HZN_EXCHANGE_USER_AUTH'', ''o/u:pw''),
                       (''HZN_EXCHANGE_NODE_AUTH'', ''o/n:tok'')] False (Inl ''''))
        '''' '''' = Return ''o/u:pw''
   \<and> GetExchangeAuth (sample_world [(''HZN_EXCHANGE_NODE_AUTH'', ''o/n:tok'')] False (Inl ''''))
        '''' '''' = Return ''o/n:tok''
   \<and> GetExchangeAuth (sample_world [] False (Inl '''')) '''' '''' = Fatal 1"
  using GetExchangeAuth_precedence [of "sample_world [] False (Inl '''')" "''a:b''" "''c:d''"]
    GetExchangeAuth_precedence
      [of "sample_world [(''HZN_EXCHANGE_USER_AUTH'', ''o/u:pw'')] False (Inl '''')" "''''" "''c:d''"]
    GetExchangeAuth_precedence
      [of "sample_world [(''HZN_EXCHANGE_USER_AUTH'', ''o/u:pw''),
                         (''HZN_EXCHANGE_NODE_AUTH'', ''o/n:tok'')] False (Inl '''')" "''''" "''''"]
    GetExchangeAuth_precedence
      [of "sample_world [(''HZN_EXCHANGE_NODE_AUTH'', ''o/n:tok'')] False (Inl '''')" "''''" "''''"]
    GetExchangeAuth_precedence [of "sample_world [] False (Inl '''')" "''''" "''''"]
  by (simp add: sample_world_def CLI_INPUT_ERROR_def)

subsection \<open>The empty list of acceptable codes in HorizonGet\<close>

text \<open>
  Whenever the agent answers, \<open>HorizonGet\<close> with an empty list of acceptable codes passes
  the status check and then evaluates \<open>goodHttpCodes[0]\<close>: the call panics, whatever
  the code, the target and the quiet flag.
\<close>

lemma HorizonGet_empty_list:
  "http_Get w (GetHorizonUrlBase w @ ''/'' @ urlSuffix) = (Inr resp, evs) \<Longrightarrow>
     HorizonGet j w urlSuffix [] structure quiet = (Panic, evs)"
  by (simp add: HorizonGet_def HorizonGet_response_def Let_def isGoodCode_def)

text \<open>
  C4. The claim: a local-agent GET with an empty list of acceptable codes that receives a
  response accepts any code and returns it, with no out-of-range access. The code at
  \<open>HorizonGet("status", []int{}, &s, false)\<close>, the agent answering 200: the status
  check accepts the code, and the call then panics on \<open>goodHttpCodes[0]\<close> instead of
  returning 200.
\<close>

theorem HorizonGet_empty_list_panics:
  "isGoodCode 200 []
   \<and> fst (HorizonGet sample_json (sample_world [] False (answer 200 ''{}''))
            ''status'' [] PtrString False) = Panic
   \<and> fst (HorizonGet sample_json (sample_world [] False (answer 200 ''{}''))
            ''status'' [] PtrString True) = Panic"
  by (simp add: HorizonGet_def HorizonGet_response_def sample_defs)



subsection \<open>The requests that are sent\<close>

text \<open>
  Once \<open>http.NewRequest\<close> has succeeded, each function sends exactly one request; these
  lemmas give it in full for the registry functions and for \<open>HorizonPutPost\<close>.
\<close>

lemma ExchangeGet_sent:
  "NewRequest_err w MethodGet (urlBase @ ''/'' @ urlSuffix) = None \<Longrightarrow>
   sent (snd (ExchangeGet j w urlBase urlSuffix credentials goodHttpCodes structure)) =
     [\<lparr>Method = MethodGet, URL = urlBase @ ''/'' @ urlSuffix,
       Header = (''Accept'', ''application/json'')
                # (if credentials \<noteq> ''''
                   then [(''Authorization'', ''Basic '' @ EncodeToString credentials)] else []),
       ReqBody = None\<rparr>]"
  by (simp add: ExchangeGet_def NewRequest_def Header_Add_def Let_def printHorizonExchRestError_def
      split: sum.splits)

lemma ExchangePutPost_sent:
  "\<not> IsDryRun w \<Longrightarrow> ExchangePutPost_body j body = Inr (jsonBytes, bodyIsBytes) \<Longrightarrow>
   NewRequest_err w method (urlBase @ ''/'' @ urlSuffix) = None \<Longrightarrow>
   sent (snd (ExchangePutPost j w method urlBase urlSuffix credentials goodHttpCodes body)) =
     [\<lparr>Method = method, URL = urlBase @ ''/'' @ urlSuffix,
       Header = [(''Accept'', ''application/json''),
                 (if bodyIsBytes then (''Content-Length'', Itoa (int (length jsonBytes)))
                  else (''Content-Type'', ''application/json''))]
                @ (if credentials \<noteq> ''''
                   then [(''Authorization'', ''Basic '' @ EncodeToString credentials)] else []),
       ReqBody = Some jsonBytes\<rparr>]"
  by (simp add: ExchangePutPost_def NewRequest_def Header_Add_def Let_def printHorizonExchRestError_def
      split: sum.splits)

lemma ExchangeDelete_sent:
  "\<not> IsDryRun w \<Longrightarrow> NewRequest_err w MethodDelete (urlBase @ ''/'' @ urlSuffix) = None \<Longrightarrow>
   sent (snd (ExchangeDelete w urlBase urlSuffix credentials goodHttpCodes)) =
     [\<lparr>Method = MethodDelete, URL = urlBase @ ''/'' @ urlSuffix,
       Header = [(''Authorization'', ''Basic '' @ EncodeToString credentials)],
       ReqBody = None\<rparr>]"
  by (simp add: ExchangeDelete_def NewRequest_def Header_Add_def Let_def printHorizonExchRestError_def
      split: sum.splits)

lemma HorizonPutPost_sent:
  "\<not> IsDryRun w \<Longrightarrow> HorizonPutPost_body j body = Inr (jsonBytes, bodyIsBytes) \<Longrightarrow>
   NewRequest_err w method (GetHorizonUrlBase w @ ''/'' @ urlSuffix) = None \<Longrightarrow>
   sent (snd (HorizonPutPost j w method urlSuffix goodHttpCodes body)) =
     [\<lparr>Method = method, URL = GetHorizonUrlBase w @ ''/'' @ urlSuffix,
       Header = [(''Accept'', ''application/json''),
                 (if bodyIsBytes then (''Content-Length'', Itoa (int (length jsonBytes)))
                  else (''Content-Type'', ''application/json''))],
       ReqBody = Some jsonBytes\<rparr>]"
  by (simp add: HorizonPutPost_def NewRequest_def Header_Add_def Let_def printHorizonRestError_def
      split: sum.splits)

subsection \<open>The Authorization header of the registry functions\<close>

text \<open>
  C3. The claim: each registry operation attaches \<open>Authorization: Basic <base64 of the
  credentials>\<close> when the credentials are not empty and no Authorization header when
  they are empty. The code at \<open>ExchangeDelete(urlBase, urlSuffix, "", []int{204})\<close>:
  the request carries the header \<open>Authorization: Basic \<close> (with an empty value), since
  \<open>ExchangeDelete\<close> adds the header without the test \<open>credentials != ""\<close> that
  \<open>ExchangeGet\<close> and \<open>ExchangePutPost\<close> make; with the same empty credentials those
  two send no Authorization header.
\<close>

theorem ExchangeDelete_empty_credentials:
  "sent (snd (ExchangeDelete (sample_world [] False (answer 204 ''''))
           ''https://exchange/v1'' ''orgs/o/nodes/n'' '''' [204])) =
     [\<lparr>Method = ''DELETE'', URL = ''https://exchange/v1/orgs/o/nodes/n'',
       Header = [(''Authorization'', ''Basic '')], ReqBody = None\<rparr>]
   \<and> sent (snd (ExchangeGet sample_json (sample_world [] False (answer 200 ''true''))
           ''https://exchange/v1'' ''orgs/o/nodes/n'' '''' [200] (PtrOther ()))) =
     [\<lparr>Method = ''GET'', URL = ''https://exchange/v1/orgs/o/nodes/n'',
       Header = [(''Accept'', ''application/json'')], ReqBody = None\<rparr>]
   \<and> sent (snd (ExchangePutPost sample_json (sample_world [] False (answer 201 ''''))
           ''PUT'' ''https://exchange/v1'' ''orgs/o/nodes/n'' '''' [201] (Other True))) =
     [\<lparr>Method = ''PUT'', URL = ''https://exchange/v1/orgs/o/nodes/n'',
       Header = [(''Accept'', ''application/json''), (''Content-Type'', ''application/json'')],
       ReqBody = Some ''true''\<rparr>]"
  by (simp add: ExchangeDelete_def ExchangeGet_def ExchangePutPost_def ExchangePutPost_body_def
      sample_defs)

text \<open>With credentials that are not empty all three attach the header the claim describes.\<close>

lemma registry_Authorization_nonempty:
  "sent (snd (ExchangeDelete (sample_world [] False (answer 204 ''''))
           ''https://exchange/v1'' ''orgs/o/nodes/n'' ''user:pw'' [204])) =
     [\<lparr>Method = ''DELETE'', URL = ''https://exchange/v1/orgs/o/nodes/n'',
       Header = [(''Authorization'', ''Basic dXNlcjpwdw=='')], ReqBody = None\<rparr>]
   \<and> sent (snd (ExchangeGet sample_json (sample_world [] False (answer 200 ''true''))
           ''https://exchange/v1'' ''orgs/o/nodes/n'' ''user:pw'' [200] (PtrOther ()))) =
     [\<lparr>Method = ''GET'', URL = ''https://exchange/v1/orgs/o/nodes/n'',
       Header = [(''Accept'', ''application/json''), (''Authorization'', ''Basic dXNlcjpwdw=='')],
       ReqBody = None\<rparr>]
   \<and> sent (snd (ExchangePutPost sample_json (sample_world [] False (answer 201 ''''))
           ''PUT'' ''https://exchange/v1'' ''orgs/o/nodes/n'' ''user:pw'' [201] (Other True))) =
     [\<lparr>Method = ''PUT'', URL = ''https://exchange/v1/orgs/o/nodes/n'',
       Header = [(''Accept'', ''application/json''), (''Content-Type'', ''application/json''),
                 (''Authorization'', ''Basic dXNlcjpwdw=='')],
       ReqBody = Some ''true''\<rparr>]"
  by (simp add: ExchangeDelete_def ExchangeGet_def ExchangePutPost_def ExchangePutPost_body_def
      sample_defs)

subsection \<open>Content-Length or Content-Type\<close>

text \<open>
  C5, as claimed: in every PUT/POST call a body given as bytes or as a string is sent
  with a Content-Length header. It fails for the registry: \<open>ExchangePutPost\<close> sends the
  string body \<open>hello\<close> unencoded, but with \<open>Content-Type: application/json\<close> and
  without a Content-Length header.
\<close>

theorem ExchangePutPost_string_body_counterexample:
  "sent (snd (ExchangePutPost sample_json (sample_world [] False (answer 201 ''''))
           ''PUT'' ''https://exchange/v1'' ''orgs/o/nodes/n'' '''' [201] (Str ''hello''))) =
     [\<lparr>Method = ''PUT'', URL = ''https://exchange/v1/orgs/o/nodes/n'',
       Header = [(''Accept'', ''application/json''), (''Content-Type'', ''application/json'')],
       ReqBody = Some ''hello''\<rparr>]"
  by (simp add: ExchangePutPost_def ExchangePutPost_body_def sample_defs)

text \<open>
  C5, amended. When the call is not a dry run and the request can be built:
  \<open>HorizonPutPost\<close> sends a body of bytes and a string body unencoded with a
  Content-Length header (the decimal length of the body), and any other body
  JSON-marshaled with \<open>Content-Type: application/json\<close>. \<open>ExchangePutPost\<close> sends only
  a body of bytes with Content-Length; a string body goes out unencoded and a
  structured one JSON-marshaled, both with \<open>Content-Type: application/json\<close>. In each
  function the header depends on the shape of the body alone.
\<close>

theorem PutPost_header_by_body_shape:
  "(\<not> IsDryRun w \<and> NewRequest_err w method (GetHorizonUrlBase w @ ''/'' @ urlSuffix) = None
      \<and> Marshal j v = Inr jsonBytes \<longrightarrow>
      sent (snd (HorizonPutPost j w method urlSuffix goodHttpCodes (Bytes b))) =
        [\<lparr>Method = method, URL = GetHorizonUrlBase w @ ''/'' @ urlSuffix,
          Header = [(''Accept'', ''application/json''),
                    (''Content-Length'', Itoa (int (length b)))],
          ReqBody = Some b\<rparr>]
      \<and> sent (snd (HorizonPutPost j w method urlSuffix goodHttpCodes (Str b))) =
        [\<lparr>Method = method, URL = GetHorizonUrlBase w @ ''/'' @ urlSuffix,
          Header = [(''Accept'', ''application/json''),
                    (''Content-Length'', Itoa (int (length b)))],
          ReqBody = Some b\<rparr>]
      \<and> sent (snd (HorizonPutPost j w method urlSuffix goodHttpCodes (Other v))) =
        [\<lparr>Method = method, URL = GetHorizonUrlBase w @ ''/'' @ urlSuffix,
          Header = [(''Accept'', ''application/json''),
                    (''Content-Type'', ''application/json'')],
          ReqBody = Some jsonBytes\<rparr>])
   \<and> (\<not> IsDryRun w \<and> NewRequest_err w method (urlBase @ ''/'' @ urlSuffix) = None
      \<and> Marshal j v = Inr jsonBytes \<longrightarrow>
      sent (snd (ExchangePutPost j w method urlBase urlSuffix credentials goodHttpCodes (Bytes b))) =
        [\<lparr>Method = method, URL = urlBase @ ''/'' @ urlSuffix,
          Header = [(''Accept'', ''application/json''),
                    (''Content-Length'', Itoa (int (length b)))]
                   @ (if credentials \<noteq> ''''
                      then [(''Authorization'', ''Basic '' @ EncodeToString credentials)] else []),
          ReqBody = Some b\<rparr>]
      \<and> sent (snd (ExchangePutPost j w method urlBase urlSuffix credentials goodHttpCodes (Str b))) =
        [\<lparr>Method = method, URL = urlBase @ ''/'' @ urlSuffix,
          Header = [(''Accept'', ''application/json''),
                    (''Content-Type'', ''application/json'')]
                   @ (if credentials \<noteq> ''''
                      then [(''Authorization'', ''Basic '' @ EncodeToString credentials)] else []),
          ReqBody = Some b\<rparr>]
      \<and> sent (snd (ExchangePutPost j w method urlBase urlSuffix credentials goodHttpCodes (Other v))) =
        [\<lparr>Method = method, URL = urlBase @ ''/'' @ urlSuffix,
          Header = [(''Accept'', ''application/json''),
                    (''Content-Type'', ''application/json'')]
                   @ (if credentials \<noteq> ''''
                      then [(''Authorization'', ''Basic '' @ EncodeToString credentials)] else []),
          ReqBody = Some jsonBytes\<rparr>])"
proof (intro conjI impI)
  assume h: "\<not> IsDryRun w \<and> NewRequest_err w method (GetHorizonUrlBase w @ ''/'' @ urlSuffix) = None
      \<and> Marshal j v = Inr jsonBytes"
  have bytes: "HorizonPutPost_body j (Bytes b) = Inr (b, True)"
    and str: "HorizonPutPost_body j (Str b) = Inr (b, True)"
    and other: "HorizonPutPost_body j (Other v) = Inr (jsonBytes, False)"
    using h by (simp_all add: HorizonPutPost_body_def)
  show "sent (snd (HorizonPutPost j w method urlSuffix goodHttpCodes (Bytes b))) =
        [\<lparr>Method = method, URL = GetHorizonUrlBase w @ ''/'' @ urlSuffix,
          Header = [(''Accept'', ''application/json''),
                    (''Content-Length'', Itoa (int (length b)))],
          ReqBody = Some b\<rparr>]"
    using h HorizonPutPost_sent [OF _ bytes, of w "method" urlSuffix goodHttpCodes] by simp
  show "sent (snd (HorizonPutPost j w method urlSuffix goodHttpCodes (Str b))) =
        [\<lparr>Method = method, URL = GetHorizonUrlBase w @ ''/'' @ urlSuffix,
          Header = [(''Accept'', ''application/json''),
                    (''Content-Length'', Itoa (int (length b)))],
          ReqBody = Some b\<rparr>]"
    using h HorizonPutPost_sent [OF _ str, of w "method" urlSuffix goodHttpCodes] by simp
  show "sent (snd (HorizonPutPost j w method urlSuffix goodHttpCodes (Other v))) =
        [\<lparr>Method = method, URL = GetHorizonUrlBase w @ ''/'' @ urlSuffix,
          Header = [(''Accept'', ''application/json''),
                    (''Content-Type'', ''application/json'')],
          ReqBody = Some jsonBytes\<rparr>]"
    using h HorizonPutPost_sent [OF _ other, of w "method" urlSuffix goodHttpCodes] by simp
next
  assume h: "\<not> IsDryRun w \<and> NewRequest_err w method (urlBase @ ''/'' @ urlSuffix) = None
      \<and> Marshal j v = Inr jsonBytes"
  have bytes: "ExchangePutPost_body j (Bytes b) = Inr (b, True)"
    and str: "ExchangePutPost_body j (Str b) = Inr (b, False)"
    and other: "ExchangePutPost_body j (Other v) = Inr (jsonBytes, False)"
    using h by (simp_all add: ExchangePutPost_body_def)
  show "sent (snd (ExchangePutPost j w method urlBase urlSuffix credentials goodHttpCodes (Bytes b))) =
        [\<lparr>Method = method, URL = urlBase @ ''/'' @ urlSuffix,
          Header = [(''Accept'', ''application/json''),
                    (''Content-Length'', Itoa (int (length b)))]
                   @ (if credentials \<noteq> ''''
                      then [(''Authorization'', ''Basic '' @ EncodeToString credentials)] else []),
          ReqBody = Some b\<rparr>]"
    using h ExchangePutPost_sent [OF _ bytes, of w "method" urlBase urlSuffix credentials goodHttpCodes]
    by simp
  show "sent (snd (ExchangePutPost j w method urlBase urlSuffix credentials goodHttpCodes (Str b))) =
        [\<lparr>Method = method, URL = urlBase @ ''/'' @ urlSuffix,
          Header = [(''Accept'', ''application/json''),
                    (''Content-Type'', ''application/json'')]
                   @ (if credentials \<noteq> ''''
                      then [(''Authorization'', ''Basic '' @ EncodeToString credentials)] else []),
          ReqBody = Some b\<rparr>]"
    using h ExchangePutPost_sent [OF _ str, of w "method" urlBase urlSuffix credentials goodHttpCodes]
    by simp
  show "sent (snd (ExchangePutPost j w method urlBase urlSuffix credentials goodHttpCodes (Other v))) =
        [\<lparr>Method = method, URL = urlBase @ ''/'' @ urlSuffix,
          Header = [(''Accept'', ''application/json''),
                    (''Content-Type'', ''application/json'')]
                   @ (if credentials \<noteq> ''''
                      then [(''Authorization'', ''Basic '' @ EncodeToString credentials)] else []),
          ReqBody = Some jsonBytes\<rparr>]"
    using h ExchangePutPost_sent [OF _ other, of w "method" urlBase urlSuffix credentials goodHttpCodes]
    by simp
qed

theorem PutPost_header_by_body_shape_witness:
  "\<not> IsDryRun (sample_world [] False (answer 201 ''''))
   \<and> NewRequest_err (sample_world [] False (answer 201 '''')) ''PUT''
        (GetHorizonUrlBase (sample_world [] False (answer 201 '''')) @ ''/'' @ ''node'') = None
   \<and> NewRequest_err (sample_world [] False (answer 201 '''')) ''PUT''
        (''https://exchange/v1'' @ ''/'' @ ''node'') = None
   \<and> Marshal sample_json True = Inr ''true''
   \<and> map Header (sent (snd (HorizonPutPost sample_json (sample_world [] False (answer 201 ''''))
        ''PUT'' ''node'' [201] (Bytes ''hello'')))) =
        [[(''Accept'', ''application/json''), (''Content-Length'', ''5'')]]
   \<and> map Header (sent (snd (HorizonPutPost sample_json (sample_world [] False (answer 201 ''''))
        ''PUT'' ''node'' [201] (Str ''hello'')))) =
        [[(''Accept'', ''application/json''), (''Content-Length'', ''5'')]]
   \<and> map Header (sent (snd (HorizonPutPost sample_json (sample_world [] False (answer 201 ''''))
        ''PUT'' ''node'' [201] (Other True)))) =
        [[(''Accept'', ''application/json''), (''Content-Type'', ''application/json'')]]
   \<and> map Header (sent (snd (ExchangePutPost sample_json (sample_world [] False (answer 201 ''''))
        ''PUT'' ''https://exchange/v1'' ''node'' '''' [201] (Bytes ''hello'')))) =
        [[(''Accept'', ''application/json''), (''Content-Length'', ''5'')]]
   \<and> map Header (sent (snd (ExchangePutPost sample_json (sample_world [] False (answer 201 ''''))
        ''PUT'' ''https://exchange/v1'' ''node'' '''' [201] (Str ''hello'')))) =
        [[(''Accept'', ''application/json''), (''Content-Type'', ''application/json'')]]
   \<and> map Header (sent (snd (ExchangePutPost sample_json (sample_world [] False (answer 201 ''''))
        ''PUT'' ''https://exchange/v1'' ''node'' '''' [201] (Other True)))) =
        [[(''Accept'', ''application/json''), (''Content-Type'', ''application/json'')]]"
  using PutPost_header_by_body_shape [of "sample_world [] False (answer 201 '''')" "''PUT''"
      "''node''" sample_json True "''true''" "[201]" "''hello''" "''https://exchange/v1''" "''''"]
  by (simp add: sample_defs)


subsection \<open>From the answer of the transport to the result\<close>

lemma HorizonGet_answered:
  "http_Get w (GetHorizonUrlBase w @ ''/'' @ urlSuffix) = (Inr resp, evs) \<Longrightarrow>
   HorizonGet j w urlSuffix goodHttpCodes structure quiet =
     (HorizonGet_response j (MethodGet @ '' '' @ GetHorizonUrlBase w @ ''/'' @ urlSuffix)
        goodHttpCodes structure quiet resp, evs)"
  by (simp add: HorizonGet_def Let_def)

lemma HorizonGet_refused:
  "http_Get w (GetHorizonUrlBase w @ ''/'' @ urlSuffix) = (Inl err, evs) \<Longrightarrow>
   (\<exists>e. e \<noteq> '''' \<and> HorizonGet j w urlSuffix goodHttpCodes structure True
            = (Return (0, Some e, Unchanged), evs))
   \<and> HorizonGet j w urlSuffix goodHttpCodes structure False = (Fatal HTTP_ERROR, evs)"
  by (simp add: HorizonGet_def Let_def printHorizonRestError_def)

lemma ExchangeGet_answered:
  "sent (snd (ExchangeGet j w urlBase urlSuffix credentials goodHttpCodes structure)) = [req] \<Longrightarrow>
   RoundTrip w req = Inr resp \<Longrightarrow>
   fst (ExchangeGet j w urlBase urlSuffix credentials goodHttpCodes structure) =
     ExchangeGet_response j goodHttpCodes structure resp"
  by (cases "NewRequest w MethodGet (urlBase @ ''/'' @ urlSuffix) None")
     (auto simp add: ExchangeGet_def Let_def)

lemma ExchangeGet_refused:
  "sent (snd (ExchangeGet j w urlBase urlSuffix credentials goodHttpCodes structure)) = [req] \<Longrightarrow>
   RoundTrip w req = Inl err \<Longrightarrow>
   fst (ExchangeGet j w urlBase urlSuffix credentials goodHttpCodes structure) = Fatal HTTP_ERROR"
  by (cases "NewRequest w MethodGet (urlBase @ ''/'' @ urlSuffix) None")
     (auto simp add: ExchangeGet_def Let_def printHorizonExchRestError_def)

lemma HorizonGet_response_secondary:
  "StatusCode resp \<in> set goodHttpCodes \<Longrightarrow> StatusCode resp \<noteq> hd goodHttpCodes \<Longrightarrow>
   HorizonGet_response j apiMsg goodHttpCodes structure quiet resp
     = Return (StatusCode resp, None, Unchanged)"
  by (cases goodHttpCodes)
     (auto simp add: HorizonGet_response_def Let_def isGoodCode_def isGoodCode_range_set)

lemma HorizonGet_response_first:
  "goodHttpCodes \<noteq> [] \<Longrightarrow> StatusCode resp = hd goodHttpCodes \<Longrightarrow>
   HorizonGet_response j apiMsg goodHttpCodes structure quiet resp =
     (case ReadAll resp of
        Inl err \<Rightarrow>
          if quiet then
            Return (StatusCode resp,
              Some (''Failed to read body response from '' @ apiMsg @ '': '' @ err), Unchanged)
          else Fatal HTTP_ERROR
      | Inr bodyBytes \<Rightarrow>
          if structure = PtrString then Return (StatusCode resp, None, StoredString bodyBytes)
          else
            (case Unmarshal j bodyBytes structure of
               Inl err \<Rightarrow>
                 if quiet then
                   Return (StatusCode resp,
                     Some (''Failed to unmarshal body response from '' @ apiMsg @ '': '' @ err),
                     Unchanged)
                 else Fatal JSON_PARSING_ERROR
             | Inr v \<Rightarrow> Return (StatusCode resp, None, StoredValue v)))"
  by (cases goodHttpCodes; cases "structure")
     (auto simp add: HorizonGet_response_def Let_def isGoodCode_def split: sum.splits)

lemma HorizonGet_response_bad_code:
  "goodHttpCodes \<noteq> [] \<Longrightarrow> StatusCode resp \<notin> set goodHttpCodes \<Longrightarrow>
   HorizonGet_response j apiMsg goodHttpCodes structure quiet resp =
     (if quiet then
        Return (StatusCode resp,
          Some (''Bad HTTP code from '' @ apiMsg @ '': '' @ Itoa (StatusCode resp)), Unchanged)
      else Fatal HTTP_ERROR)"
  by (simp add: HorizonGet_response_def Let_def isGoodCode_def isGoodCode_range_set)

lemma HorizonGet_response_stored:
  "HorizonGet_response j apiMsg goodHttpCodes structure quiet resp = Return (code, e, st) \<Longrightarrow>
   st \<noteq> Unchanged \<Longrightarrow> goodHttpCodes \<noteq> [] \<and> code = hd goodHttpCodes"
  by (cases goodHttpCodes; cases "structure"; cases "ReadAll resp")
     (auto simp add: HorizonGet_response_def Let_def split: if_splits sum.splits)

lemma HorizonGet_response_quiet:
  "HorizonGet_response j apiMsg goodHttpCodes structure True resp \<noteq> Fatal c"
  by (cases goodHttpCodes; cases "structure"; cases "ReadAll resp")
     (auto simp add: HorizonGet_response_def Let_def split: if_splits sum.splits)

lemma HorizonGet_response_loud:
  "HorizonGet_response j apiMsg goodHttpCodes structure False resp \<noteq> Return (c, Some e, st)"
  by (cases goodHttpCodes; cases "structure"; cases "ReadAll resp")
     (auto simp add: HorizonGet_response_def Let_def split: if_splits sum.splits)

lemma ExchangeGet_response_good:
  "ReadAll resp = Inr bodyBytes \<Longrightarrow> isGoodCode (StatusCode resp) goodHttpCodes \<Longrightarrow>
   ExchangeGet_response j goodHttpCodes structure resp
     = ExchangeGet_decode j (StatusCode resp) bodyBytes structure"
  by (simp add: ExchangeGet_response_def Let_def)



subsection \<open>Which status code has its body decoded\<close>

text \<open>
  C1, as claimed: on either GET, an acceptable code other than the first one is reported
  by the code alone and its body is not decoded. It fails for the registry: with
  \<open>[200, 404]\<close> acceptable, an answer 404 with the body \<open>Not Found\<close> and a typed
  target makes \<open>ExchangeGet\<close> decode the body and end with the exit code of a JSON parse
  failure, and an answer 404 with the body \<open>true\<close> is decoded into the target.
\<close>

theorem ExchangeGet_secondary_code_counterexample:
  "(404::int) \<in> set [200, 404] \<and> (404::int) \<noteq> hd [200, 404]
   \<and> fst (ExchangeGet sample_json (sample_world [] False (answer 404 ''Not Found''))
            ''https://exchange/v1'' ''orgs/o/nodes/n'' ''o/u:pw'' [200, 404] (PtrOther ()))
       = Fatal JSON_PARSING_ERROR
   \<and> fst (ExchangeGet sample_json (sample_world [] False (answer 404 ''true''))
            ''https://exchange/v1'' ''orgs/o/nodes/n'' ''o/u:pw'' [200, 404] (PtrOther ()))
       = Return (404, StoredValue True)"
  by (simp add: ExchangeGet_def ExchangeGet_response_def ExchangeGet_decode_def sample_defs)

text \<open>
  C1, amended. For every local-agent GET that is answered with a code that lies in the
  list of acceptable codes but is not its first element, the body is neither read nor
  decoded: the call returns the observed code, no error, and leaves the target alone;
  and whenever a local-agent GET returns with something stored in the target, the code
  it returns is the first acceptable code. The registry GET decodes for every
  acceptable code: with a body that is not empty and a typed target, the result is that
  of \<open>json.Unmarshal\<close> on the body, a JSON parse failure when it rejects the body;
  and for every target that is not nil the body is decoded as the kind of the target
  prescribes (copied for bytes, re-serialized for a string, unmarshaled otherwise).
\<close>

theorem GET_decodes_by_code:
  "(http_Get w (GetHorizonUrlBase w @ ''/'' @ urlSuffix) = (Inr resp, evs)
      \<and> StatusCode resp \<in> set goodHttpCodes \<and> StatusCode resp \<noteq> hd goodHttpCodes \<longrightarrow>
      HorizonGet j w urlSuffix goodHttpCodes target quiet
        = (Return (StatusCode resp, None, Unchanged), evs))
   \<and> (fst (HorizonGet j w urlSuffix goodHttpCodes target quiet) = Return (code, e, st)
      \<and> st \<noteq> Unchanged \<longrightarrow>
      goodHttpCodes \<noteq> [] \<and> code = hd goodHttpCodes)
   \<and> (sent (snd (ExchangeGet j w urlBase urlSuffix credentials goodHttpCodes (PtrOther d))) = [req]
      \<and> RoundTrip w req = Inr resp \<and> ReadAll resp = Inr bodyBytes \<and> bodyBytes \<noteq> ''''
      \<and> StatusCode resp \<in> set goodHttpCodes \<longrightarrow>
      fst (ExchangeGet j w urlBase urlSuffix credentials goodHttpCodes (PtrOther d)) =
        (case Unmarshal j bodyBytes (PtrOther d) of
           Inl err \<Rightarrow> Fatal JSON_PARSING_ERROR
         | Inr v \<Rightarrow> Return (StatusCode resp, StoredValue v)))
   \<and> (sent (snd (ExchangeGet j w urlBase urlSuffix credentials goodHttpCodes target)) = [req]
      \<and> RoundTrip w req = Inr resp \<and> ReadAll resp = Inr bodyBytes \<and> bodyBytes \<noteq> ''''
      \<and> StatusCode resp \<in> set goodHttpCodes \<and> target \<noteq> NilStructure \<longrightarrow>
      fst (ExchangeGet j w urlBase urlSuffix credentials goodHttpCodes target) =
        (case target of
           PtrBytes \<Rightarrow> Return (StatusCode resp, StoredBytes bodyBytes)
         | PtrString \<Rightarrow>
             (case Unmarshal_any j bodyBytes of
                Inl err \<Rightarrow> Fatal JSON_PARSING_ERROR
              | Inr jsonStruct \<Rightarrow>
                  (case MarshalIndent j jsonStruct '''' ''  '' of
                     Inl err \<Rightarrow> Fatal JSON_PARSING_ERROR
                   | Inr jsonBytes \<Rightarrow> Return (StatusCode resp, StoredString jsonBytes)))
         | _ \<Rightarrow>
             (case Unmarshal j bodyBytes target of
                Inl err \<Rightarrow> Fatal JSON_PARSING_ERROR
              | Inr v \<Rightarrow> Return (StatusCode resp, StoredValue v))))"
proof (intro conjI impI)
  assume h: "http_Get w (GetHorizonUrlBase w @ ''/'' @ urlSuffix) = (Inr resp, evs)
      \<and> StatusCode resp \<in> set goodHttpCodes \<and> StatusCode resp \<noteq> hd goodHttpCodes"
  then show "HorizonGet j w urlSuffix goodHttpCodes target quiet
        = (Return (StatusCode resp, None, Unchanged), evs)"
    by (simp add: HorizonGet_answered HorizonGet_response_secondary)
next
  assume h: "fst (HorizonGet j w urlSuffix goodHttpCodes target quiet) = Return (code, e, st)
      \<and> st \<noteq> Unchanged"
  obtain r evs where g: "http_Get w (GetHorizonUrlBase w @ ''/'' @ urlSuffix) = (r, evs)"
    by (cases "http_Get w (GetHorizonUrlBase w @ ''/'' @ urlSuffix)") simp
  show "goodHttpCodes \<noteq> []" and "code = hd goodHttpCodes"
  proof -
    have "goodHttpCodes \<noteq> [] \<and> code = hd goodHttpCodes"
    proof (cases r)
      case (Inl err)
      with g h HorizonGet_refused [of w urlSuffix err evs j goodHttpCodes "target"]
      show ?thesis by (cases quiet) auto
    next
      case (Inr resp')
      with g h show ?thesis
        by (auto simp add: HorizonGet_answered dest: HorizonGet_response_stored)
    qed
    then show "goodHttpCodes \<noteq> []" and "code = hd goodHttpCodes" by simp_all
  qed
next
  assume h: "sent (snd (ExchangeGet j w urlBase urlSuffix credentials goodHttpCodes (PtrOther d))) = [req]
      \<and> RoundTrip w req = Inr resp \<and> ReadAll resp = Inr bodyBytes \<and> bodyBytes \<noteq> ''''
      \<and> StatusCode resp \<in> set goodHttpCodes"
  then have good: "isGoodCode (StatusCode resp) goodHttpCodes"
    by (auto simp add: isGoodCode_def isGoodCode_range_set)
  from h have "fst (ExchangeGet j w urlBase urlSuffix credentials goodHttpCodes (PtrOther d))
      = ExchangeGet_response j goodHttpCodes (PtrOther d) resp"
    by (simp add: ExchangeGet_answered)
  also from h good have "\<dots> = ExchangeGet_decode j (StatusCode resp) bodyBytes (PtrOther d)"
    by (simp add: ExchangeGet_response_good)
  also from h have "\<dots> = (case Unmarshal j bodyBytes (PtrOther d) of
           Inl err \<Rightarrow> Fatal JSON_PARSING_ERROR
         | Inr v \<Rightarrow> Return (StatusCode resp, StoredValue v))"
    by (simp add: ExchangeGet_decode_def)
  finally show "fst (ExchangeGet j w urlBase urlSuffix credentials goodHttpCodes (PtrOther d)) =
        (case Unmarshal j bodyBytes (PtrOther d) of
           Inl err \<Rightarrow> Fatal JSON_PARSING_ERROR
         | Inr v \<Rightarrow> Return (StatusCode resp, StoredValue v))" .
next
  assume h: "sent (snd (ExchangeGet j w urlBase urlSuffix credentials goodHttpCodes target)) = [req]
      \<and> RoundTrip w req = Inr resp \<and> ReadAll resp = Inr bodyBytes \<and> bodyBytes \<noteq> ''''
      \<and> StatusCode resp \<in> set goodHttpCodes \<and> target \<noteq> NilStructure"
  then have good: "isGoodCode (StatusCode resp) goodHttpCodes"
    by (auto simp add: isGoodCode_def isGoodCode_range_set)
  from h good have "fst (ExchangeGet j w urlBase urlSuffix credentials goodHttpCodes target)
      = ExchangeGet_decode j (StatusCode resp) bodyBytes target"
    by (simp add: ExchangeGet_answered ExchangeGet_response_good)
  with h show "fst (ExchangeGet j w urlBase urlSuffix credentials goodHttpCodes target) =
        (case target of
           PtrBytes \<Rightarrow> Return (StatusCode resp, StoredBytes bodyBytes)
         | PtrString \<Rightarrow>
             (case Unmarshal_any j bodyBytes of
                Inl err \<Rightarrow> Fatal JSON_PARSING_ERROR
              | Inr jsonStruct \<Rightarrow>
                  (case MarshalIndent j jsonStruct '''' ''  '' of
                     Inl err \<Rightarrow> Fatal JSON_PARSING_ERROR
                   | Inr jsonBytes \<Rightarrow> Return (StatusCode resp, StoredString jsonBytes)))
         | _ \<Rightarrow>
             (case Unmarshal j bodyBytes target of
                Inl err \<Rightarrow> Fatal JSON_PARSING_ERROR
              | Inr v \<Rightarrow> Return (StatusCode resp, StoredValue v)))"
    unfolding ExchangeGet_decode_def JSON_INDENT_def by (cases target) simp_all
qed

theorem GET_decodes_by_code_witness:
  "http_Get (sample_world [] False (answer 404 ''Not Found''))
      (GetHorizonUrlBase (sample_world [] False (answer 404 ''Not Found'')) @ ''/'' @ ''node'')
     = (Inr \<lparr>StatusCode = 404, Body = ''Not Found'', BodyErr = None\<rparr>,
        [Constructed \<lparr>Method = ''GET'', URL = ''http://localhost/node'', Header = [],
                       ReqBody = None\<rparr>,
         Sent \<lparr>Method = ''GET'', URL = ''http://localhost/node'', Header = [],
                ReqBody = None\<rparr>])
   \<and> (404::int) \<in> set [200, 404] \<and> (404::int) \<noteq> hd [200, 404]
   \<and> HorizonGet sample_json (sample_world [] False (answer 404 ''Not Found''))
        ''node'' [200, 404] (PtrOther ()) False
       = (Return (404, None, Unchanged),
          [Constructed \<lparr>Method = ''GET'', URL = ''http://localhost/node'', Header = [],
                         ReqBody = None\<rparr>,
           Sent \<lparr>Method = ''GET'', URL = ''http://localhost/node'', Header = [],
                  ReqBody = None\<rparr>])
   \<and> fst (HorizonGet sample_json (sample_world [] False (answer 200 ''true''))
            ''node'' [200, 404] (PtrOther ()) False) = Return (200, None, StoredValue True)
   \<and> StoredValue True \<noteq> (Unchanged :: bool stored)
   \<and> [200, 404] \<noteq> ([] :: int list) \<and> (200::int) = hd [200, 404]
   \<and> sent (snd (ExchangeGet sample_json (sample_world [] False (answer 404 ''true''))
            ''https://exchange/v1'' ''orgs/o/nodes/n'' '''' [200, 404] (PtrOther ())))
       = [\<lparr>Method = ''GET'', URL = ''https://exchange/v1/orgs/o/nodes/n'',
           Header = [(''Accept'', ''application/json'')], ReqBody = None\<rparr>]
   \<and> RoundTrip (sample_world [] False (answer 404 ''true''))
        \<lparr>Method = ''GET'', URL = ''https://exchange/v1/orgs/o/nodes/n'',
         Header = [(''Accept'', ''application/json'')], ReqBody = None\<rparr>
       = Inr \<lparr>StatusCode = 404, Body = ''true'', BodyErr = None\<rparr>
   \<and> ReadAll \<lparr>StatusCode = 404, Body = ''true'', BodyErr = None\<rparr> = Inr ''true''
   \<and> ''true'' \<noteq> ''''
   \<and> fst (ExchangeGet sample_json (sample_world [] False (answer 404 ''true''))
            ''https://exchange/v1'' ''orgs/o/nodes/n'' '''' [200, 404] (PtrOther ()))
       = Return (404, StoredValue True)
   \<and> sent (snd (ExchangeGet sample_json (sample_world [] False (answer 404 ''Not Found''))
            ''https://exchange/v1'' ''orgs/o/nodes/n'' '''' [200, 404] PtrBytes))
       = [\<lparr>Method = ''GET'', URL = ''https://exchange/v1/orgs/o/nodes/n'',
           Header = [(''Accept'', ''application/json'')], ReqBody = None\<rparr>]
   \<and> ''Not Found'' \<noteq> '''' \<and> PtrBytes \<noteq> (NilStructure :: unit target)
   \<and> fst (ExchangeGet sample_json (sample_world [] False (answer 404 ''Not Found''))
            ''https://exchange/v1'' ''orgs/o/nodes/n'' '''' [200, 404] PtrBytes)
       = Return (404, StoredBytes ''Not Found'')"
  using GET_decodes_by_code
      [where w = "sample_world [] False (answer 404 ''Not Found'')" and urlSuffix = "''node''"
         and resp = "\<lparr>StatusCode = 404, Body = ''Not Found'', BodyErr = None\<rparr>"
         and evs = "[Constructed \<lparr>Method = ''GET'', URL = ''http://localhost/node'', Header = [],
                       ReqBody = None\<rparr>,
                     Sent \<lparr>Method = ''GET'', URL = ''http://localhost/node'', Header = [],
                       ReqBody = None\<rparr>]"
         and goodHttpCodes = "[200, 404]" and j = sample_json and target = "PtrOther ()"
         and quiet = False]
    GET_decodes_by_code
      [where w = "sample_world [] False (answer 200 ''true'')" and urlSuffix = "''node''"
         and goodHttpCodes = "[200, 404]" and j = sample_json and target = "PtrOther ()"
         and quiet = False and code = 200 and e = None and st = "StoredValue True"]
    GET_decodes_by_code
      [where w = "sample_world [] False (answer 404 ''true'')"
         and urlSuffix = "''orgs/o/nodes/n''" and urlBase = "''https://exchange/v1''"
         and credentials = "''''" and goodHttpCodes = "[200, 404]" and j = sample_json
         and d = "()"
         and req = "\<lparr>Method = ''GET'', URL = ''https://exchange/v1/orgs/o/nodes/n'',
                      Header = [(''Accept'', ''application/json'')], ReqBody = None\<rparr>"
         and resp = "\<lparr>StatusCode = 404, Body = ''true'', BodyErr = None\<rparr>"
         and bodyBytes = "''true''"]
    GET_decodes_by_code
      [where w = "sample_world [] False (answer 404 ''Not Found'')"
         and urlSuffix = "''orgs/o/nodes/n''" and urlBase = "''https://exchange/v1''"
         and credentials = "''''" and goodHttpCodes = "[200, 404]" and j = sample_json
         and target = "PtrBytes"
         and req = "\<lparr>Method = ''GET'', URL = ''https://exchange/v1/orgs/o/nodes/n'',
                      Header = [(''Accept'', ''application/json'')], ReqBody = None\<rparr>"
         and resp = "\<lparr>StatusCode = 404, Body = ''Not Found'', BodyErr = None\<rparr>"
         and bodyBytes = "''Not Found''"]
  by (simp add: HorizonGet_def HorizonGet_response_def ExchangeGet_def ExchangeGet_response_def
      ExchangeGet_decode_def sample_defs)

subsection \<open>A string as the target\<close>

text \<open>
  C6, as claimed: on either GET a string target receives the body re-serialized with a
  2-space indent, and a body that is not valid JSON is a JSON parse failure. It fails
  for the local agent: \<open>HorizonGet\<close> hands back the body text \<open>{"b":1,"a":2}\<close> as it
  came, not its re-serialization, and hands back the malformed body \<open>{bad\<close> instead of
  failing.
\<close>

theorem HorizonGet_string_target_counterexample:
  \<open>fst (HorizonGet sample_json (sample_world [] False (answer 200 ''{"b":1,"a":2}''))
          ''node'' [200] PtrString False)
     = Return (200, None, StoredString ''{"b":1,"a":2}'')
   \<and> Unmarshal_any sample_json ''{"b":1,"a":2}'' = Inr Doc_b1_a2
   \<and> MarshalIndent sample_json Doc_b1_a2 '''' JSON_INDENT
       = Inr ''{\<newline>  "a": 2,\<newline>  "b": 1\<newline>}''
   \<and> fst (HorizonGet sample_json (sample_world [] False (answer 200 ''{bad''))
          ''node'' [200] PtrString False)
     = Return (200, None, StoredString ''{bad'')
   \<and> isl (Unmarshal_any sample_json ''{bad'')\<close>
  by (simp add: HorizonGet_def HorizonGet_response_def sample_defs)

text \<open>
  C6, amended. For every registry GET with a string target whose body is decoded (an
  acceptable code and a body that is not empty), the body is unmarshaled as generic JSON
  and marshaled again with an empty prefix and the 2-space indent, and the string
  stored is this re-serialization; a body that \<open>json.Unmarshal\<close> rejects is a JSON
  parse failure. For every local-agent GET with a string target whose body is decoded
  (the code is the first acceptable one), the string stored is the body as it came,
  valid JSON or not.
\<close>

theorem string_target_decoding:
  "(sent (snd (ExchangeGet j w urlBase urlSuffix credentials goodHttpCodes PtrString)) = [req]
      \<and> RoundTrip w req = Inr resp \<and> ReadAll resp = Inr bodyBytes \<and> bodyBytes \<noteq> ''''
      \<and> isGoodCode (StatusCode resp) goodHttpCodes \<longrightarrow>
      fst (ExchangeGet j w urlBase urlSuffix credentials goodHttpCodes PtrString) =
        (case Unmarshal_any j bodyBytes of
           Inl err \<Rightarrow> Fatal JSON_PARSING_ERROR
         | Inr jsonStruct \<Rightarrow>
             (case MarshalIndent j jsonStruct '''' ''  '' of
                Inl err \<Rightarrow> Fatal JSON_PARSING_ERROR
              | Inr jsonBytes \<Rightarrow> Return (StatusCode resp, StoredString jsonBytes))))
   \<and> (http_Get w (GetHorizonUrlBase w @ ''/'' @ urlSuffix) = (Inr resp, evs)
      \<and> goodHttpCodes \<noteq> [] \<and> StatusCode resp = hd goodHttpCodes
      \<and> ReadAll resp = Inr bodyBytes \<longrightarrow>
      HorizonGet j w urlSuffix goodHttpCodes PtrString quiet
        = (Return (StatusCode resp, None, StoredString bodyBytes), evs))"
proof (intro conjI impI)
  assume h: "sent (snd (ExchangeGet j w urlBase urlSuffix credentials goodHttpCodes PtrString)) = [req]
      \<and> RoundTrip w req = Inr resp \<and> ReadAll resp = Inr bodyBytes \<and> bodyBytes \<noteq> ''''
      \<and> isGoodCode (StatusCode resp) goodHttpCodes"
  then have "fst (ExchangeGet j w urlBase urlSuffix credentials goodHttpCodes PtrString)
      = ExchangeGet_decode j (StatusCode resp) bodyBytes PtrString"
    by (simp add: ExchangeGet_answered ExchangeGet_response_good)
  with h show "fst (ExchangeGet j w urlBase urlSuffix credentials goodHttpCodes PtrString) =
        (case Unmarshal_any j bodyBytes of
           Inl err \<Rightarrow> Fatal JSON_PARSING_ERROR
         | Inr jsonStruct \<Rightarrow>
             (case MarshalIndent j jsonStruct '''' ''  '' of
                Inl err \<Rightarrow> Fatal JSON_PARSING_ERROR
              | Inr jsonBytes \<Rightarrow> Return (StatusCode resp, StoredString jsonBytes)))"
    unfolding ExchangeGet_decode_def JSON_INDENT_def by simp
next
  assume h: "http_Get w (GetHorizonUrlBase w @ ''/'' @ urlSuffix) = (Inr resp, evs)
      \<and> goodHttpCodes \<noteq> [] \<and> StatusCode resp = hd goodHttpCodes
      \<and> ReadAll resp = Inr bodyBytes"
  then show "HorizonGet j w urlSuffix goodHttpCodes PtrString quiet
        = (Return (StatusCode resp, None, StoredString bodyBytes), evs)"
    by (simp add: HorizonGet_answered HorizonGet_response_first)
qed

theorem string_target_decoding_witness:
  \<open>sent (snd (ExchangeGet sample_json (sample_world [] False (answer 200 ''{"b":1,"a":2}''))
            ''https://exchange/v1'' ''orgs/o/nodes/n'' '''' [200] PtrString))
       = [\<lparr>Method = ''GET'', URL = ''https://exchange/v1/orgs/o/nodes/n'',
           Header = [(''Accept'', ''application/json'')], ReqBody = None\<rparr>]
   \<and> RoundTrip (sample_world [] False (answer 200 ''{"b":1,"a":2}''))
        \<lparr>Method = ''GET'', URL = ''https://exchange/v1/orgs/o/nodes/n'',
         Header = [(''Accept'', ''application/json'')], ReqBody = None\<rparr>
       = Inr \<lparr>StatusCode = 200, Body = ''{"b":1,"a":2}'', BodyErr = None\<rparr>
   \<and> ReadAll \<lparr>StatusCode = 200, Body = ''{"b":1,"a":2}'', BodyErr = None\<rparr>
       = Inr ''{"b":1,"a":2}''
   \<and> ''{"b":1,"a":2}'' \<noteq> '''' \<and> isGoodCode 200 [200]
   \<and> fst (ExchangeGet sample_json (sample_world [] False (answer 200 ''{"b":1,"a":2}''))
            ''https://exchange/v1'' ''orgs/o/nodes/n'' '''' [200] PtrString)
       = Return (200, StoredString ''{\<newline>  "a": 2,\<newline>  "b": 1\<newline>}'')
   \<and> fst (ExchangeGet sample_json (sample_world [] False (answer 200 ''{bad''))
            ''https://exchange/v1'' ''orgs/o/nodes/n'' '''' [200] PtrString)
       = Fatal JSON_PARSING_ERROR
   \<and> http_Get (sample_world [] False (answer 200 ''{bad''))
        (GetHorizonUrlBase (sample_world [] False (answer 200 ''{bad'')) @ ''/'' @ ''node'')
       = (Inr \<lparr>StatusCode = 200, Body = ''{bad'', BodyErr = None\<rparr>,
          [Constructed \<lparr>Method = ''GET'', URL = ''http://localhost/node'', Header = [],
                         ReqBody = None\<rparr>,
           Sent \<lparr>Method = ''GET'', URL = ''http://localhost/node'', Header = [],
                  ReqBody = None\<rparr>])
   \<and> [200] \<noteq> ([] :: int list) \<and> (200::int) = hd [200]
   \<and> HorizonGet sample_json (sample_world [] False (answer 200 ''{bad'')) ''node'' [200]
        PtrString False
       = (Return (200, None, StoredString ''{bad''),
          [Constructed \<lparr>Method = ''GET'', URL = ''http://localhost/node'', Header = [],
                         ReqBody = None\<rparr>,
           Sent \<lparr>Method = ''GET'', URL = ''http://localhost/node'', Header = [],
                  ReqBody = None\<rparr>])\<close>
  using string_target_decoding
      [where w = \<open>sample_world [] False (answer 200 ''{"b":1,"a":2}'')\<close>
         and urlSuffix = "''orgs/o/nodes/n''" and urlBase = "''https://exchange/v1''"
         and credentials = "''''" and goodHttpCodes = "[200]" and j = sample_json
         and req = "\<lparr>Method = ''GET'', URL = ''https://exchange/v1/orgs/o/nodes/n'',
                      Header = [(''Accept'', ''application/json'')], ReqBody = None\<rparr>"
         and resp = \<open>\<lparr>StatusCode = 200, Body = ''{"b":1,"a":2}'', BodyErr = None\<rparr>\<close>
         and bodyBytes = \<open>''{"b":1,"a":2}''\<close>]
    string_target_decoding
      [where w = \<open>sample_world [] False (answer 200 ''{bad'')\<close>
         and urlSuffix = "''orgs/o/nodes/n''" and urlBase = "''https://exchange/v1''"
         and credentials = "''''" and goodHttpCodes = "[200]" and j = sample_json
         and req = "\<lparr>Method = ''GET'', URL = ''https://exchange/v1/orgs/o/nodes/n'',
                      Header = [(''Accept'', ''application/json'')], ReqBody = None\<rparr>"
         and resp = \<open>\<lparr>StatusCode = 200, Body = ''{bad'', BodyErr = None\<rparr>\<close>
         and bodyBytes = \<open>''{bad''\<close>]
    string_target_decoding
      [where w = \<open>sample_world [] False (answer 200 ''{bad'')\<close>
         and urlSuffix = "''node''" and goodHttpCodes = "[200]" and j = sample_json
         and resp = \<open>\<lparr>StatusCode = 200, Body = ''{bad'', BodyErr = None\<rparr>\<close>
         and evs = "[Constructed \<lparr>Method = ''GET'', URL = ''http://localhost/node'', Header = [],
                       ReqBody = None\<rparr>,
                     Sent \<lparr>Method = ''GET'', URL = ''http://localhost/node'', Header = [],
                       ReqBody = None\<rparr>]"
         and bodyBytes = \<open>''{bad''\<close> and quiet = False]
  by (simp add: HorizonGet_def HorizonGet_response_def ExchangeGet_def ExchangeGet_response_def
      ExchangeGet_decode_def sample_defs)

subsection \<open>An empty body\<close>

text \<open>
  C7, as claimed: on either GET with a typed target an empty body skips the decode step
  and is no parse failure. It fails for the local agent: on the first acceptable code
  \<open>HorizonGet\<close> gives the empty body to \<open>json.Unmarshal\<close>, which rejects it, and the
  call ends with the exit code of a JSON parse failure (in quiet mode, with an error).
\<close>

theorem HorizonGet_empty_body_counterexample:
  "fst (HorizonGet sample_json (sample_world [] False (answer 200 ''''))
          ''node'' [200] (PtrOther ()) False) = Fatal JSON_PARSING_ERROR
   \<and> fst (HorizonGet sample_json (sample_world [] False (answer 200 ''''))
          ''node'' [200] (PtrOther ()) True)
     = Return (200,
         Some ''Failed to unmarshal body response from GET http://localhost/node: json: cannot unmarshal into Go value of type bool'',
         Unchanged)"
  by (simp add: HorizonGet_def HorizonGet_response_def sample_defs)

text \<open>
  C7, amended. For every registry GET, whatever the target, an empty body answered with
  an acceptable code is valid but empty: nothing is decoded, the target is left as it
  was (its zero value), the observed code is returned and there is no parse failure.
  The local-agent GET has no such guard: when the code is the first acceptable one and
  the target is not a string, the empty body is given to \<open>json.Unmarshal\<close>, and the
  call ends as that decides: on its error with a JSON parse failure (an error returned
  in quiet mode), else with the decoded value.
\<close>

theorem empty_body_decoding:
  "(sent (snd (ExchangeGet j w urlBase urlSuffix credentials goodHttpCodes target)) = [req]
      \<and> RoundTrip w req = Inr resp \<and> ReadAll resp = Inr ''''
      \<and> isGoodCode (StatusCode resp) goodHttpCodes \<longrightarrow>
      fst (ExchangeGet j w urlBase urlSuffix credentials goodHttpCodes target)
        = Return (StatusCode resp, Unchanged))
   \<and> (http_Get w (GetHorizonUrlBase w @ ''/'' @ urlSuffix) = (Inr resp, evs)
      \<and> goodHttpCodes \<noteq> [] \<and> StatusCode resp = hd goodHttpCodes
      \<and> ReadAll resp = Inr '''' \<and> target \<noteq> PtrString \<longrightarrow>
      HorizonGet j w urlSuffix goodHttpCodes target quiet =
        (case Unmarshal j '''' target of
           Inl err \<Rightarrow>
             if quiet then
               Return (StatusCode resp,
                 Some (''Failed to unmarshal body response from GET ''
                   @ GetHorizonUrlBase w @ ''/'' @ urlSuffix @ '': '' @ err), Unchanged)
             else Fatal JSON_PARSING_ERROR
         | Inr v \<Rightarrow> Return (StatusCode resp, None, StoredValue v), evs))"
proof (intro conjI impI)
  assume h: "sent (snd (ExchangeGet j w urlBase urlSuffix credentials goodHttpCodes target)) = [req]
      \<and> RoundTrip w req = Inr resp \<and> ReadAll resp = Inr ''''
      \<and> isGoodCode (StatusCode resp) goodHttpCodes"
  then have "fst (ExchangeGet j w urlBase urlSuffix credentials goodHttpCodes target)
      = ExchangeGet_decode j (StatusCode resp) '''' target"
    by (simp add: ExchangeGet_answered ExchangeGet_response_good)
  then show "fst (ExchangeGet j w urlBase urlSuffix credentials goodHttpCodes target)
        = Return (StatusCode resp, Unchanged)"
    by (simp add: ExchangeGet_decode_def)
next
  assume h: "http_Get w (GetHorizonUrlBase w @ ''/'' @ urlSuffix) = (Inr resp, evs)
      \<and> goodHttpCodes \<noteq> [] \<and> StatusCode resp = hd goodHttpCodes
      \<and> ReadAll resp = Inr '''' \<and> target \<noteq> PtrString"
  then show "HorizonGet j w urlSuffix goodHttpCodes target quiet =
        (case Unmarshal j '''' target of
           Inl err \<Rightarrow>
             if quiet then
               Return (StatusCode resp,
                 Some (''Failed to unmarshal body response from GET ''
                   @ GetHorizonUrlBase w @ ''/'' @ urlSuffix @ '': '' @ err), Unchanged)
             else Fatal JSON_PARSING_ERROR
         | Inr v \<Rightarrow> Return (StatusCode resp, None, StoredValue v), evs)"
    by (cases "Unmarshal j '''' target")
       (simp_all add: HorizonGet_answered HorizonGet_response_first MethodGet_def)
qed

theorem empty_body_decoding_witness:
  "sent (snd (ExchangeGet sample_json (sample_world [] False (answer 200 ''''))
            ''https://exchange/v1'' ''orgs/o/nodes/n'' '''' [200] (PtrOther ())))
       = [\<lparr>Method = ''GET'', URL = ''https://exchange/v1/orgs/o/nodes/n'',
           Header = [(''Accept'', ''application/json'')], ReqBody = None\<rparr>]
   \<and> RoundTrip (sample_world [] False (answer 200 ''''))
        \<lparr>Method = ''GET'', URL = ''https://exchange/v1/orgs/o/nodes/n'',
         Header = [(''Accept'', ''application/json'')], ReqBody = None\<rparr>
       = Inr \<lparr>StatusCode = 200, Body = '''', BodyErr = None\<rparr>
   \<and> ReadAll \<lparr>StatusCode = 200, Body = '''', BodyErr = None\<rparr> = Inr ''''
   \<and> isGoodCode 200 [200]
   \<and> fst (ExchangeGet sample_json (sample_world [] False (answer 200 ''''))
            ''https://exchange/v1'' ''orgs/o/nodes/n'' '''' [200] (PtrOther ()))
       = Return (200, Unchanged)
   \<and> http_Get (sample_world [] False (answer 200 ''''))
        (GetHorizonUrlBase (sample_world [] False (answer 200 '''')) @ ''/'' @ ''node'')
       = (Inr \<lparr>StatusCode = 200, Body = '''', BodyErr = None\<rparr>,
          [Constructed \<lparr>Method = ''GET'', URL = ''http://localhost/node'', Header = [],
                         ReqBody = None\<rparr>,
           Sent \<lparr>Method = ''GET'', URL = ''http://localhost/node'', Header = [],
                  ReqBody = None\<rparr>])
   \<and> [200] \<noteq> ([] :: int list) \<and> (200::int) = hd [200]
   \<and> PtrOther () \<noteq> (PtrString :: unit target)
   \<and> isl (Unmarshal sample_json '''' (PtrOther ()))
   \<and> HorizonGet sample_json (sample_world [] False (answer 200 '''')) ''node'' [200]
        (PtrOther ()) False
       = (Fatal JSON_PARSING_ERROR,
          [Constructed \<lparr>Method = ''GET'', URL = ''http://localhost/node'', Header = [],
                         ReqBody = None\<rparr>,
           Sent \<lparr>Method = ''GET'', URL = ''http://localhost/node'', Header = [],
                  ReqBody = None\<rparr>])"
  using empty_body_decoding
      [where w = "sample_world [] False (answer 200 '''')"
         and urlSuffix = "''orgs/o/nodes/n''" and urlBase = "''https://exchange/v1''"
         and credentials = "''''" and goodHttpCodes = "[200]" and j = sample_json
         and target = "PtrOther ()"
         and req = "\<lparr>Method = ''GET'', URL = ''https://exchange/v1/orgs/o/nodes/n'',
                      Header = [(''Accept'', ''application/json'')], ReqBody = None\<rparr>"
         and resp = "\<lparr>StatusCode = 200, Body = '''', BodyErr = None\<rparr>"]
    empty_body_decoding
      [where w = "sample_world [] False (answer 200 '''')"
         and urlSuffix = "''node''" and goodHttpCodes = "[200]" and j = sample_json
         and target = "PtrOther ()"
         and resp = "\<lparr>StatusCode = 200, Body = '''', BodyErr = None\<rparr>"
         and evs = "[Constructed \<lparr>Method = ''GET'', URL = ''http://localhost/node'', Header = [],
                       ReqBody = None\<rparr>,
                     Sent \<lparr>Method = ''GET'', URL = ''http://localhost/node'', Header = [],
                       ReqBody = None\<rparr>]"
         and quiet = False]
  by (simp add: HorizonGet_def HorizonGet_response_def ExchangeGet_def ExchangeGet_response_def
      ExchangeGet_decode_def sample_defs)



subsection \<open>Failures: returned in quiet mode, fatal everywhere else\<close>

lemma HorizonDelete_failures:
  "sent (snd (HorizonDelete w urlSuffix goodHttpCodes)) = [req] \<Longrightarrow>
   RoundTrip w req = Inl err
     \<or> (RoundTrip w req = Inr resp \<and> \<not> isGoodCode (StatusCode resp) goodHttpCodes) \<Longrightarrow>
   fst (HorizonDelete w urlSuffix goodHttpCodes) = Fatal HTTP_ERROR"
  by (cases "IsDryRun w";
      cases "NewRequest w MethodDelete (GetHorizonUrlBase w @ ''/'' @ urlSuffix) None")
     (auto simp add: HorizonDelete_def Let_def printHorizonRestError_def)

lemma ExchangeDelete_failures:
  "sent (snd (ExchangeDelete w urlBase urlSuffix credentials goodHttpCodes)) = [req] \<Longrightarrow>
   RoundTrip w req = Inl err
     \<or> (RoundTrip w req = Inr resp \<and> \<not> isGoodCode (StatusCode resp) goodHttpCodes) \<Longrightarrow>
   fst (ExchangeDelete w urlBase urlSuffix credentials goodHttpCodes) = Fatal HTTP_ERROR"
  by (cases "IsDryRun w";
      cases "NewRequest w MethodDelete (urlBase @ ''/'' @ urlSuffix) None")
     (auto simp add: ExchangeDelete_def Let_def printHorizonExchRestError_def)

lemma HorizonPutPost_failures:
  "sent (snd (HorizonPutPost j w method urlSuffix goodHttpCodes body)) = [req] \<Longrightarrow>
   RoundTrip w req = Inl err
     \<or> (RoundTrip w req = Inr resp \<and> \<not> isGoodCode (StatusCode resp) goodHttpCodes) \<Longrightarrow>
   fst (HorizonPutPost j w method urlSuffix goodHttpCodes body) = Fatal HTTP_ERROR"
proof (cases "IsDryRun w")
  case True
  then show "sent (snd (HorizonPutPost j w method urlSuffix goodHttpCodes body)) = [req] \<Longrightarrow>
    fst (HorizonPutPost j w method urlSuffix goodHttpCodes body) = Fatal HTTP_ERROR"
    by (simp add: HorizonPutPost_def)
next
  case False
  assume s: "sent (snd (HorizonPutPost j w method urlSuffix goodHttpCodes body)) = [req]"
    and f: "RoundTrip w req = Inl err
     \<or> (RoundTrip w req = Inr resp \<and> \<not> isGoodCode (StatusCode resp) goodHttpCodes)"
  show "fst (HorizonPutPost j w method urlSuffix goodHttpCodes body) = Fatal HTTP_ERROR"
  proof (cases "HorizonPutPost_body j body")
    case (Inl e)
    with False s show ?thesis by (simp add: HorizonPutPost_def)
  next
    case (Inr p)
    obtain jsonBytes bodyIsBytes where p: "p = (jsonBytes, bodyIsBytes)" by (cases p)
    show ?thesis
    proof (cases "NewRequest w method (GetHorizonUrlBase w @ ''/'' @ urlSuffix) (Some jsonBytes)")
      case (Inl e)
      with False Inr p s show ?thesis by (simp add: HorizonPutPost_def)
    next
      case (Inr req0)
      with False \<open>HorizonPutPost_body j body = Inr p\<close> p s f show ?thesis
        by (auto simp add: HorizonPutPost_def Let_def printHorizonRestError_def)
    qed
  qed
qed

lemma ExchangePutPost_failures:
  "sent (snd (ExchangePutPost j w method urlBase urlSuffix credentials goodHttpCodes body)) = [req] \<Longrightarrow>
   RoundTrip w req = Inl err
     \<or> (RoundTrip w req = Inr resp \<and> \<not> isGoodCode (StatusCode resp) goodHttpCodes) \<Longrightarrow>
   fst (ExchangePutPost j w method urlBase urlSuffix credentials goodHttpCodes body) = Fatal HTTP_ERROR"
proof (cases "IsDryRun w")
  case True
  then show "sent (snd (ExchangePutPost j w method urlBase urlSuffix credentials goodHttpCodes body)) = [req] \<Longrightarrow>
    fst (ExchangePutPost j w method urlBase urlSuffix credentials goodHttpCodes body) = Fatal HTTP_ERROR"
    by (simp add: ExchangePutPost_def)
next
  case False
  assume s: "sent (snd (ExchangePutPost j w method urlBase urlSuffix credentials goodHttpCodes body)) = [req]"
    and f: "RoundTrip w req = Inl err
     \<or> (RoundTrip w req = Inr resp \<and> \<not> isGoodCode (StatusCode resp) goodHttpCodes)"
  show "fst (ExchangePutPost j w method urlBase urlSuffix credentials goodHttpCodes body) = Fatal HTTP_ERROR"
  proof (cases "ExchangePutPost_body j body")
    case (Inl e)
    with False s show ?thesis by (simp add: ExchangePutPost_def)
  next
    case (Inr p)
    obtain jsonBytes bodyIsBytes where p: "p = (jsonBytes, bodyIsBytes)" by (cases p)
    show ?thesis
    proof (cases "NewRequest w method (urlBase @ ''/'' @ urlSuffix) (Some jsonBytes)")
      case (Inl e)
      with False Inr p s show ?thesis by (simp add: ExchangePutPost_def)
    next
      case (Inr req0)
      with False \<open>ExchangePutPost_body j body = Inr p\<close> p s f show ?thesis
        by (auto simp add: ExchangePutPost_def Let_def printHorizonExchRestError_def
            split: sum.splits)
    qed
  qed
qed

lemma ExchangeGet_response_failures:
  "ReadAll resp = Inl err \<or> \<not> isGoodCode (StatusCode resp) goodHttpCodes \<Longrightarrow>
   ExchangeGet_response j goodHttpCodes target resp = Fatal HTTP_ERROR"
  by (auto simp add: ExchangeGet_response_def Let_def split: sum.splits)

lemma ExchangeGet_decode_failures:
  "bodyBytes \<noteq> '''' \<Longrightarrow>
   (target = PtrString \<and> Unmarshal_any j bodyBytes = Inl err)
     \<or> (target = PtrOther d \<and> Unmarshal j bodyBytes target = Inl err) \<Longrightarrow>
   ExchangeGet_decode j httpCode bodyBytes target = Fatal JSON_PARSING_ERROR"
  by (auto simp add: ExchangeGet_decode_def)

lemma HorizonGet_quiet_not_fatal:
  "fst (HorizonGet j w urlSuffix goodHttpCodes target True) \<noteq> Fatal c"
proof -
  obtain r evs where g: "http_Get w (GetHorizonUrlBase w @ ''/'' @ urlSuffix) = (r, evs)"
    by (cases "http_Get w (GetHorizonUrlBase w @ ''/'' @ urlSuffix)") simp
  show ?thesis
  proof (cases r)
    case (Inl err)
    with g HorizonGet_refused [of w urlSuffix err evs j goodHttpCodes target]
    show ?thesis by auto
  next
    case (Inr resp)
    with g show ?thesis by (simp add: HorizonGet_answered HorizonGet_response_quiet)
  qed
qed

lemma HorizonGet_loud_no_error:
  "fst (HorizonGet j w urlSuffix goodHttpCodes target False) \<noteq> Return (c, Some e, st)"
proof -
  obtain r evs where g: "http_Get w (GetHorizonUrlBase w @ ''/'' @ urlSuffix) = (r, evs)"
    by (cases "http_Get w (GetHorizonUrlBase w @ ''/'' @ urlSuffix)") simp
  show ?thesis
  proof (cases r)
    case (Inl err)
    with g HorizonGet_refused [of w urlSuffix err evs j goodHttpCodes target]
    show ?thesis by auto
  next
    case (Inr resp)
    with g show ?thesis by (simp add: HorizonGet_answered HorizonGet_response_loud)
  qed
qed

lemma HorizonGet_response_quiet_returns:
  "goodHttpCodes \<noteq> [] \<Longrightarrow>
   \<exists>v. HorizonGet_response j apiMsg goodHttpCodes target True resp = Return v"
  by (cases goodHttpCodes; cases target; cases "ReadAll resp")
     (auto simp add: HorizonGet_response_def Let_def split: sum.splits)

lemma HorizonGet_quiet_returns:
  "goodHttpCodes \<noteq> [] \<Longrightarrow>
   \<exists>v. fst (HorizonGet j w urlSuffix goodHttpCodes target True) = Return v"
proof -
  assume ne: "goodHttpCodes \<noteq> []"
  obtain r evs where g: "http_Get w (GetHorizonUrlBase w @ ''/'' @ urlSuffix) = (r, evs)"
    by (cases "http_Get w (GetHorizonUrlBase w @ ''/'' @ urlSuffix)") simp
  show ?thesis
  proof (cases r)
    case (Inl err)
    with g HorizonGet_refused [of w urlSuffix err evs j goodHttpCodes target]
    show ?thesis by auto
  next
    case (Inr resp)
    from HorizonGet_response_quiet_returns [OF ne]
    obtain v where "HorizonGet_response j
        (MethodGet @ '' '' @ GetHorizonUrlBase w @ ''/'' @ urlSuffix)
        goodHttpCodes target True resp = Return v"
      by blast
    with g Inr have "fst (HorizonGet j w urlSuffix goodHttpCodes target True) = Return v"
      by (simp add: HorizonGet_answered)
    then show ?thesis by blast
  qed
qed

lemma HorizonDelete_good_code:
  "sent (snd (HorizonDelete w urlSuffix goodHttpCodes)) = [req] \<Longrightarrow>
   RoundTrip w req = Inr resp \<Longrightarrow> isGoodCode (StatusCode resp) goodHttpCodes \<Longrightarrow>
   fst (HorizonDelete w urlSuffix goodHttpCodes) = Return (StatusCode resp)"
  by (cases "IsDryRun w";
      cases "NewRequest w MethodDelete (GetHorizonUrlBase w @ ''/'' @ urlSuffix) None")
     (auto simp add: HorizonDelete_def Let_def)

lemma ExchangeDelete_good_code:
  "sent (snd (ExchangeDelete w urlBase urlSuffix credentials goodHttpCodes)) = [req] \<Longrightarrow>
   RoundTrip w req = Inr resp \<Longrightarrow> isGoodCode (StatusCode resp) goodHttpCodes \<Longrightarrow>
   fst (ExchangeDelete w urlBase urlSuffix credentials goodHttpCodes) = Return (StatusCode resp)"
  by (cases "IsDryRun w";
      cases "NewRequest w MethodDelete (urlBase @ ''/'' @ urlSuffix) None")
     (auto simp add: ExchangeDelete_def Let_def)

lemma HorizonPutPost_good_code:
  "sent (snd (HorizonPutPost j w verb urlSuffix goodHttpCodes body)) = [req] \<Longrightarrow>
   RoundTrip w req = Inr resp \<Longrightarrow> isGoodCode (StatusCode resp) goodHttpCodes \<Longrightarrow>
   fst (HorizonPutPost j w verb urlSuffix goodHttpCodes body)
     = Return (StatusCode resp, Body resp)"
proof (cases "IsDryRun w")
  case True
  then show "sent (snd (HorizonPutPost j w verb urlSuffix goodHttpCodes body)) = [req] \<Longrightarrow>
    fst (HorizonPutPost j w verb urlSuffix goodHttpCodes body)
      = Return (StatusCode resp, Body resp)"
    by (simp add: HorizonPutPost_def)
next
  case False
  assume s: "sent (snd (HorizonPutPost j w verb urlSuffix goodHttpCodes body)) = [req]"
    and a: "RoundTrip w req = Inr resp" and g: "isGoodCode (StatusCode resp) goodHttpCodes"
  show "fst (HorizonPutPost j w verb urlSuffix goodHttpCodes body)
      = Return (StatusCode resp, Body resp)"
  proof (cases "HorizonPutPost_body j body")
    case (Inl e)
    with False s show ?thesis by (simp add: HorizonPutPost_def)
  next
    case (Inr p)
    obtain jsonBytes bodyIsBytes where p: "p = (jsonBytes, bodyIsBytes)" by (cases p)
    show ?thesis
    proof (cases "NewRequest w verb (GetHorizonUrlBase w @ ''/'' @ urlSuffix) (Some jsonBytes)")
      case (Inl e)
      with False Inr p s show ?thesis by (simp add: HorizonPutPost_def)
    next
      case (Inr req0)
      with False \<open>HorizonPutPost_body j body = Inr p\<close> p s a g show ?thesis
        by (auto simp add: HorizonPutPost_def Let_def GetRespBodyAsString_def)
    qed
  qed
qed

lemma ExchangePutPost_good_code:
  "sent (snd (ExchangePutPost j w verb urlBase urlSuffix credentials goodHttpCodes body)) = [req] \<Longrightarrow>
   RoundTrip w req = Inr resp \<Longrightarrow> isGoodCode (StatusCode resp) goodHttpCodes \<Longrightarrow>
   fst (ExchangePutPost j w verb urlBase urlSuffix credentials goodHttpCodes body)
     = Return (StatusCode resp)"
proof (cases "IsDryRun w")
  case True
  then show "sent (snd (ExchangePutPost j w verb urlBase urlSuffix credentials goodHttpCodes body)) = [req] \<Longrightarrow>
    fst (ExchangePutPost j w verb urlBase urlSuffix credentials goodHttpCodes body)
      = Return (StatusCode resp)"
    by (simp add: ExchangePutPost_def)
next
  case False
  assume s: "sent (snd (ExchangePutPost j w verb urlBase urlSuffix credentials goodHttpCodes body)) = [req]"
    and a: "RoundTrip w req = Inr resp" and g: "isGoodCode (StatusCode resp) goodHttpCodes"
  show "fst (ExchangePutPost j w verb urlBase urlSuffix credentials goodHttpCodes body)
      = Return (StatusCode resp)"
  proof (cases "ExchangePutPost_body j body")
    case (Inl e)
    with False s show ?thesis by (simp add: ExchangePutPost_def)
  next
    case (Inr p)
    obtain jsonBytes bodyIsBytes where p: "p = (jsonBytes, bodyIsBytes)" by (cases p)
    show ?thesis
    proof (cases "NewRequest w verb (urlBase @ ''/'' @ urlSuffix) (Some jsonBytes)")
      case (Inl e)
      with False Inr p s show ?thesis by (simp add: ExchangePutPost_def)
    next
      case (Inr req0)
      with False \<open>ExchangePutPost_body j body = Inr p\<close> p s a g show ?thesis
        by (auto simp add: ExchangePutPost_def Let_def)
    qed
  qed
qed

text \<open>
  C8, as claimed: quiet mode of the local-agent GET is the only path that returns errors,
  and in every other operation each failure, a body-read failure included, ends the
  process. It fails for \<open>HorizonPutPost\<close>: the function reads the body through
  \<open>GetRespBodyAsString\<close>, which drops the error of the read, so on an acceptable code
  a body that cannot be read to its end is no failure at all: the call returns the code
  and the part of the body that was read.
\<close>

theorem HorizonPutPost_read_failure_counterexample:
  "ReadAll \<lparr>StatusCode = 201, Body = ''part'', BodyErr = Some ''unexpected EOF''\<rparr>
     = Inl ''unexpected EOF''
   \<and> isGoodCode 201 [201]
   \<and> fst (HorizonPutPost sample_json
            (sample_world [] False
               (Inr \<lparr>StatusCode = 201, Body = ''part'', BodyErr = Some ''unexpected EOF''\<rparr>))
            ''PUT'' ''node'' [201] (Other True))
       = Return (201, ''part'')"
  by (simp add: HorizonPutPost_def HorizonPutPost_body_def sample_defs)

text \<open>
  C8, amended. \<open>HorizonGet\<close> with \<open>quiet\<close> set returns each of its failures to the
  caller as a descriptive error and never ends the process through \<open>Fatal\<close>: a failed
  connection, a status code outside a non-empty list of acceptable codes, a body that
  cannot be read and a body that \<open>json.Unmarshal\<close> rejects; with a non-empty list a
  quiet call always returns. Without \<open>quiet\<close> each of these failures is fatal, and no
  error is ever returned. The other five operations return no error at all (their
  results are a code, or a code and a body). In each of them a failed connection and a
  bad status code end the process, and so do an unreadable and an undecodable body in
  \<open>ExchangeGet\<close>. A body-read failure is not terminal in \<open>HorizonPutPost\<close>: on an
  acceptable code it returns the code and what was read of the body, whether or not
  the read failed. \<open>HorizonDelete\<close>, \<open>ExchangePutPost\<close> and \<open>ExchangeDelete\<close> do not
  read the body on an acceptable code and return the code.
\<close>

theorem errors_returned_only_in_quiet_mode:
  "(http_Get w (GetHorizonUrlBase w @ ''/'' @ urlSuffix) = (Inl err, evs) \<longrightarrow>
      (\<exists>e. e \<noteq> '''' \<and> fst (HorizonGet j w urlSuffix goodHttpCodes target True)
              = Return (0, Some e, Unchanged))
      \<and> fst (HorizonGet j w urlSuffix goodHttpCodes target False) = Fatal HTTP_ERROR)
   \<and> (http_Get w (GetHorizonUrlBase w @ ''/'' @ urlSuffix) = (Inr resp, evs)
      \<and> goodHttpCodes \<noteq> [] \<and> StatusCode resp \<notin> set goodHttpCodes \<longrightarrow>
      (\<exists>e. e \<noteq> '''' \<and> fst (HorizonGet j w urlSuffix goodHttpCodes target True)
              = Return (StatusCode resp, Some e, Unchanged))
      \<and> fst (HorizonGet j w urlSuffix goodHttpCodes target False) = Fatal HTTP_ERROR)
   \<and> (http_Get w (GetHorizonUrlBase w @ ''/'' @ urlSuffix) = (Inr resp, evs)
      \<and> goodHttpCodes \<noteq> [] \<and> StatusCode resp = hd goodHttpCodes
      \<and> ReadAll resp = Inl err \<longrightarrow>
      (\<exists>e. e \<noteq> '''' \<and> fst (HorizonGet j w urlSuffix goodHttpCodes target True)
              = Return (StatusCode resp, Some e, Unchanged))
      \<and> fst (HorizonGet j w urlSuffix goodHttpCodes target False) = Fatal HTTP_ERROR)
   \<and> (http_Get w (GetHorizonUrlBase w @ ''/'' @ urlSuffix) = (Inr resp, evs)
      \<and> goodHttpCodes \<noteq> [] \<and> StatusCode resp = hd goodHttpCodes
      \<and> ReadAll resp = Inr bodyBytes \<and> target \<noteq> PtrString
      \<and> Unmarshal j bodyBytes target = Inl err \<longrightarrow>
      (\<exists>e. e \<noteq> '''' \<and> fst (HorizonGet j w urlSuffix goodHttpCodes target True)
              = Return (StatusCode resp, Some e, Unchanged))
      \<and> fst (HorizonGet j w urlSuffix goodHttpCodes target False) = Fatal JSON_PARSING_ERROR)
   \<and> (\<forall>c. fst (HorizonGet j w urlSuffix goodHttpCodes target True) \<noteq> Fatal c)
   \<and> (\<forall>c e st. fst (HorizonGet j w urlSuffix goodHttpCodes target False)
         \<noteq> Return (c, Some e, st))
   \<and> (sent (snd (HorizonDelete w urlSuffix goodHttpCodes)) = [reqD]
      \<and> (RoundTrip w reqD = Inl err
          \<or> (RoundTrip w reqD = Inr resp \<and> \<not> isGoodCode (StatusCode resp) goodHttpCodes)) \<longrightarrow>
      fst (HorizonDelete w urlSuffix goodHttpCodes) = Fatal HTTP_ERROR)
   \<and> (sent (snd (HorizonPutPost j w verb urlSuffix goodHttpCodes body)) = [reqP]
      \<and> (RoundTrip w reqP = Inl err
          \<or> (RoundTrip w reqP = Inr resp \<and> \<not> isGoodCode (StatusCode resp) goodHttpCodes)) \<longrightarrow>
      fst (HorizonPutPost j w verb urlSuffix goodHttpCodes body) = Fatal HTTP_ERROR)
   \<and> (sent (snd (ExchangePutPost j w verb urlBase urlSuffix credentials goodHttpCodes body))
        = [reqEP]
      \<and> (RoundTrip w reqEP = Inl err
          \<or> (RoundTrip w reqEP = Inr resp \<and> \<not> isGoodCode (StatusCode resp) goodHttpCodes)) \<longrightarrow>
      fst (ExchangePutPost j w verb urlBase urlSuffix credentials goodHttpCodes body)
        = Fatal HTTP_ERROR)
   \<and> (sent (snd (ExchangeDelete w urlBase urlSuffix credentials goodHttpCodes)) = [reqED]
      \<and> (RoundTrip w reqED = Inl err
          \<or> (RoundTrip w reqED = Inr resp \<and> \<not> isGoodCode (StatusCode resp) goodHttpCodes)) \<longrightarrow>
      fst (ExchangeDelete w urlBase urlSuffix credentials goodHttpCodes) = Fatal HTTP_ERROR)
   \<and> (sent (snd (ExchangeGet j w urlBase urlSuffix credentials goodHttpCodes target)) = [reqG]
      \<and> (RoundTrip w reqG = Inl err
          \<or> (RoundTrip w reqG = Inr resp \<and> ReadAll resp = Inl err)
          \<or> (RoundTrip w reqG = Inr resp \<and> \<not> isGoodCode (StatusCode resp) goodHttpCodes)) \<longrightarrow>
      fst (ExchangeGet j w urlBase urlSuffix credentials goodHttpCodes target) = Fatal HTTP_ERROR)
   \<and> (sent (snd (ExchangeGet j w urlBase urlSuffix credentials goodHttpCodes target)) = [reqG]
      \<and> RoundTrip w reqG = Inr resp \<and> ReadAll resp = Inr bodyBytes \<and> bodyBytes \<noteq> ''''
      \<and> isGoodCode (StatusCode resp) goodHttpCodes
      \<and> ((target = PtrString \<and> Unmarshal_any j bodyBytes = Inl err)
          \<or> (target = PtrOther d \<and> Unmarshal j bodyBytes target = Inl err)) \<longrightarrow>
      fst (ExchangeGet j w urlBase urlSuffix credentials goodHttpCodes target)
        = Fatal JSON_PARSING_ERROR)
   \<and> (goodHttpCodes \<noteq> [] \<longrightarrow>
      (\<exists>v. fst (HorizonGet j w urlSuffix goodHttpCodes target True) = Return v))
   \<and> (sent (snd (HorizonPutPost j w verb urlSuffix goodHttpCodes body)) = [reqP]
      \<and> RoundTrip w reqP = Inr resp \<and> isGoodCode (StatusCode resp) goodHttpCodes \<longrightarrow>
      fst (HorizonPutPost j w verb urlSuffix goodHttpCodes body)
        = Return (StatusCode resp, Body resp))
   \<and> (sent (snd (HorizonDelete w urlSuffix goodHttpCodes)) = [reqD]
      \<and> RoundTrip w reqD = Inr resp \<and> isGoodCode (StatusCode resp) goodHttpCodes \<longrightarrow>
      fst (HorizonDelete w urlSuffix goodHttpCodes) = Return (StatusCode resp))
   \<and> (sent (snd (ExchangePutPost j w verb urlBase urlSuffix credentials goodHttpCodes body))
        = [reqEP]
      \<and> RoundTrip w reqEP = Inr resp \<and> isGoodCode (StatusCode resp) goodHttpCodes \<longrightarrow>
      fst (ExchangePutPost j w verb urlBase urlSuffix credentials goodHttpCodes body)
        = Return (StatusCode resp))
   \<and> (sent (snd (ExchangeDelete w urlBase urlSuffix credentials goodHttpCodes)) = [reqED]
      \<and> RoundTrip w reqED = Inr resp \<and> isGoodCode (StatusCode resp) goodHttpCodes \<longrightarrow>
      fst (ExchangeDelete w urlBase urlSuffix credentials goodHttpCodes)
        = Return (StatusCode resp))"
proof -
  let ?url = "GetHorizonUrlBase w @ ''/'' @ urlSuffix"
  have a1: "http_Get w ?url = (Inl err, evs) \<longrightarrow>
      (\<exists>e. e \<noteq> '''' \<and> fst (HorizonGet j w urlSuffix goodHttpCodes target True)
              = Return (0, Some e, Unchanged))
      \<and> fst (HorizonGet j w urlSuffix goodHttpCodes target False) = Fatal HTTP_ERROR"
  proof
    assume "http_Get w ?url = (Inl err, evs)"
    from HorizonGet_refused [OF this, of j goodHttpCodes target]
    show "(\<exists>e. e \<noteq> '''' \<and> fst (HorizonGet j w urlSuffix goodHttpCodes target True)
              = Return (0, Some e, Unchanged))
      \<and> fst (HorizonGet j w urlSuffix goodHttpCodes target False) = Fatal HTTP_ERROR"
      by auto
  qed
  have a2: "http_Get w ?url = (Inr resp, evs)
      \<and> goodHttpCodes \<noteq> [] \<and> StatusCode resp \<notin> set goodHttpCodes \<longrightarrow>
      (\<exists>e. e \<noteq> '''' \<and> fst (HorizonGet j w urlSuffix goodHttpCodes target True)
              = Return (StatusCode resp, Some e, Unchanged))
      \<and> fst (HorizonGet j w urlSuffix goodHttpCodes target False) = Fatal HTTP_ERROR"
    by (simp add: HorizonGet_answered HorizonGet_response_bad_code)
  have a3: "http_Get w ?url = (Inr resp, evs)
      \<and> goodHttpCodes \<noteq> [] \<and> StatusCode resp = hd goodHttpCodes
      \<and> ReadAll resp = Inl err \<longrightarrow>
      (\<exists>e. e \<noteq> '''' \<and> fst (HorizonGet j w urlSuffix goodHttpCodes target True)
              = Return (StatusCode resp, Some e, Unchanged))
      \<and> fst (HorizonGet j w urlSuffix goodHttpCodes target False) = Fatal HTTP_ERROR"
    by (simp add: HorizonGet_answered HorizonGet_response_first)
  have a4: "http_Get w ?url = (Inr resp, evs)
      \<and> goodHttpCodes \<noteq> [] \<and> StatusCode resp = hd goodHttpCodes
      \<and> ReadAll resp = Inr bodyBytes \<and> target \<noteq> PtrString
      \<and> Unmarshal j bodyBytes target = Inl err \<longrightarrow>
      (\<exists>e. e \<noteq> '''' \<and> fst (HorizonGet j w urlSuffix goodHttpCodes target True)
              = Return (StatusCode resp, Some e, Unchanged))
      \<and> fst (HorizonGet j w urlSuffix goodHttpCodes target False) = Fatal JSON_PARSING_ERROR"
    by (simp add: HorizonGet_answered HorizonGet_response_first)
  have a5: "\<forall>c. fst (HorizonGet j w urlSuffix goodHttpCodes target True) \<noteq> Fatal c"
    by (simp add: HorizonGet_quiet_not_fatal)
  have a6: "\<forall>c e st. fst (HorizonGet j w urlSuffix goodHttpCodes target False)
         \<noteq> Return (c, Some e, st)"
    by (simp add: HorizonGet_loud_no_error)
  have b1: "sent (snd (HorizonDelete w urlSuffix goodHttpCodes)) = [reqD]
      \<and> (RoundTrip w reqD = Inl err
          \<or> (RoundTrip w reqD = Inr resp \<and> \<not> isGoodCode (StatusCode resp) goodHttpCodes)) \<longrightarrow>
      fst (HorizonDelete w urlSuffix goodHttpCodes) = Fatal HTTP_ERROR"
    using HorizonDelete_failures [of w urlSuffix goodHttpCodes reqD err resp] by blast
  have b2: "sent (snd (HorizonPutPost j w verb urlSuffix goodHttpCodes body)) = [reqP]
      \<and> (RoundTrip w reqP = Inl err
          \<or> (RoundTrip w reqP = Inr resp \<and> \<not> isGoodCode (StatusCode resp) goodHttpCodes)) \<longrightarrow>
      fst (HorizonPutPost j w verb urlSuffix goodHttpCodes body) = Fatal HTTP_ERROR"
    using HorizonPutPost_failures [of j w verb urlSuffix goodHttpCodes body reqP err resp]
    by blast
  have b3: "sent (snd (ExchangePutPost j w verb urlBase urlSuffix credentials goodHttpCodes body))
        = [reqEP]
      \<and> (RoundTrip w reqEP = Inl err
          \<or> (RoundTrip w reqEP = Inr resp \<and> \<not> isGoodCode (StatusCode resp) goodHttpCodes)) \<longrightarrow>
      fst (ExchangePutPost j w verb urlBase urlSuffix credentials goodHttpCodes body)
        = Fatal HTTP_ERROR"
    using ExchangePutPost_failures
      [of j w verb urlBase urlSuffix credentials goodHttpCodes body reqEP err resp]
    by blast
  have b4: "sent (snd (ExchangeDelete w urlBase urlSuffix credentials goodHttpCodes)) = [reqED]
      \<and> (RoundTrip w reqED = Inl err
          \<or> (RoundTrip w reqED = Inr resp \<and> \<not> isGoodCode (StatusCode resp) goodHttpCodes)) \<longrightarrow>
      fst (ExchangeDelete w urlBase urlSuffix credentials goodHttpCodes) = Fatal HTTP_ERROR"
    using ExchangeDelete_failures [of w urlBase urlSuffix credentials goodHttpCodes reqED err resp]
    by blast
  have b5: "sent (snd (ExchangeGet j w urlBase urlSuffix credentials goodHttpCodes target)) = [reqG]
      \<and> (RoundTrip w reqG = Inl err
          \<or> (RoundTrip w reqG = Inr resp \<and> ReadAll resp = Inl err)
          \<or> (RoundTrip w reqG = Inr resp \<and> \<not> isGoodCode (StatusCode resp) goodHttpCodes)) \<longrightarrow>
      fst (ExchangeGet j w urlBase urlSuffix credentials goodHttpCodes target) = Fatal HTTP_ERROR"
    using ExchangeGet_refused [of j w urlBase urlSuffix credentials goodHttpCodes target reqG err]
      ExchangeGet_answered [of j w urlBase urlSuffix credentials goodHttpCodes target reqG resp]
      ExchangeGet_response_failures [of resp err goodHttpCodes j target]
    by auto
  have b6: "sent (snd (ExchangeGet j w urlBase urlSuffix credentials goodHttpCodes target)) = [reqG]
      \<and> RoundTrip w reqG = Inr resp \<and> ReadAll resp = Inr bodyBytes \<and> bodyBytes \<noteq> ''''
      \<and> isGoodCode (StatusCode resp) goodHttpCodes
      \<and> ((target = PtrString \<and> Unmarshal_any j bodyBytes = Inl err)
          \<or> (target = PtrOther d \<and> Unmarshal j bodyBytes target = Inl err)) \<longrightarrow>
      fst (ExchangeGet j w urlBase urlSuffix credentials goodHttpCodes target)
        = Fatal JSON_PARSING_ERROR"
    using ExchangeGet_answered [of j w urlBase urlSuffix credentials goodHttpCodes target reqG resp]
      ExchangeGet_response_good [of resp bodyBytes goodHttpCodes j target]
      ExchangeGet_decode_failures [of bodyBytes target j err d "StatusCode resp"]
    by auto
  have c1: "goodHttpCodes \<noteq> [] \<longrightarrow>
      (\<exists>v. fst (HorizonGet j w urlSuffix goodHttpCodes target True) = Return v)"
    using HorizonGet_quiet_returns [of goodHttpCodes j w urlSuffix target] by blast
  have c2: "sent (snd (HorizonPutPost j w verb urlSuffix goodHttpCodes body)) = [reqP]
      \<and> RoundTrip w reqP = Inr resp \<and> isGoodCode (StatusCode resp) goodHttpCodes \<longrightarrow>
      fst (HorizonPutPost j w verb urlSuffix goodHttpCodes body)
        = Return (StatusCode resp, Body resp)"
    using HorizonPutPost_good_code [of j w verb urlSuffix goodHttpCodes body reqP resp]
    by blast
  have c3: "sent (snd (HorizonDelete w urlSuffix goodHttpCodes)) = [reqD]
      \<and> RoundTrip w reqD = Inr resp \<and> isGoodCode (StatusCode resp) goodHttpCodes \<longrightarrow>
      fst (HorizonDelete w urlSuffix goodHttpCodes) = Return (StatusCode resp)"
    using HorizonDelete_good_code [of w urlSuffix goodHttpCodes reqD resp] by blast
  have c4: "sent (snd (ExchangePutPost j w verb urlBase urlSuffix credentials goodHttpCodes body))
        = [reqEP]
      \<and> RoundTrip w reqEP = Inr resp \<and> isGoodCode (StatusCode resp) goodHttpCodes \<longrightarrow>
      fst (ExchangePutPost j w verb urlBase urlSuffix credentials goodHttpCodes body)
        = Return (StatusCode resp)"
    using ExchangePutPost_good_code
      [of j w verb urlBase urlSuffix credentials goodHttpCodes body reqEP resp]
    by blast
  have c5: "sent (snd (ExchangeDelete w urlBase urlSuffix credentials goodHttpCodes)) = [reqED]
      \<and> RoundTrip w reqED = Inr resp \<and> isGoodCode (StatusCode resp) goodHttpCodes \<longrightarrow>
      fst (ExchangeDelete w urlBase urlSuffix credentials goodHttpCodes)
        = Return (StatusCode resp)"
    using ExchangeDelete_good_code [of w urlBase urlSuffix credentials goodHttpCodes reqED resp]
    by blast
  from a1 a2 a3 a4 a5 a6 b1 b2 b3 b4 b5 b6 c1 c2 c3 c4 c5 show ?thesis by (intro conjI)
qed

theorem errors_returned_only_in_quiet_mode_witness:
  "http_Get (sample_world [] False (Inl ''connection refused''))
      (GetHorizonUrlBase (sample_world [] False (Inl ''connection refused'')) @ ''/'' @ ''node'')
     = (Inl ''connection refused'',
        [Constructed \<lparr>Method = ''GET'', URL = ''http://localhost/node'', Header = [],
                       ReqBody = None\<rparr>,
         Sent \<lparr>Method = ''GET'', URL = ''http://localhost/node'', Header = [],
                ReqBody = None\<rparr>])
   \<and> fst (HorizonGet sample_json (sample_world [] False (Inl ''connection refused''))
            ''node'' [200] (PtrOther ()) True)
       = Return (0,
           Some ''Can't connect to the Horizon REST API to run GET http://localhost/node. Run 'systemctl status horizon' to check if the Horizon agent is running. Or set HORIZON_URL to connect to another local port that is connected to a remote Horizon agent via a ssh tunnel. Specific error is: connection refused'',
           Unchanged)
   \<and> fst (HorizonGet sample_json (sample_world [] False (Inl ''connection refused''))
            ''node'' [200] (PtrOther ()) False) = Fatal HTTP_ERROR
   \<and> sent (snd (HorizonDelete (sample_world [] False (Inl ''connection refused''))
            ''node'' [200]))
       = [\<lparr>Method = ''DELETE'', URL = ''http://localhost/node'', Header = [], ReqBody = None\<rparr>]
   \<and> fst (HorizonDelete (sample_world [] False (Inl ''connection refused'')) ''node'' [200])
       = Fatal HTTP_ERROR
   \<and> fst (HorizonPutPost sample_json (sample_world [] False (Inl ''connection refused''))
            ''PUT'' ''node'' [200] (Other True)) = Fatal HTTP_ERROR
   \<and> fst (ExchangePutPost sample_json (sample_world [] False (Inl ''connection refused''))
            ''PUT'' ''https://exchange/v1'' ''node'' '''' [200] (Other True)) = Fatal HTTP_ERROR
   \<and> fst (ExchangeDelete (sample_world [] False (Inl ''connection refused''))
            ''https://exchange/v1'' ''node'' '''' [200]) = Fatal HTTP_ERROR
   \<and> fst (ExchangeGet sample_json (sample_world [] False (Inl ''connection refused''))
            ''https://exchange/v1'' ''node'' '''' [200] (PtrOther ())) = Fatal HTTP_ERROR
   \<and> [200] \<noteq> ([] :: int list) \<and> (500::int) \<notin> set [200] \<and> \<not> isGoodCode 500 [200]
   \<and> fst (HorizonGet sample_json (sample_world [] False (answer 500 ''oops''))
            ''node'' [200] (PtrOther ()) True)
       = Return (500, Some ''Bad HTTP code from GET http://localhost/node: 500'', Unchanged)
   \<and> fst (HorizonGet sample_json (sample_world [] False (answer 500 ''oops''))
            ''node'' [200] (PtrOther ()) False) = Fatal HTTP_ERROR
   \<and> fst (HorizonDelete (sample_world [] False (answer 500 ''oops'')) ''node'' [200])
       = Fatal HTTP_ERROR
   \<and> fst (HorizonPutPost sample_json (sample_world [] False (answer 500 ''oops''))
            ''PUT'' ''node'' [200] (Other True)) = Fatal HTTP_ERROR
   \<and> fst (ExchangePutPost sample_json (sample_world [] False (answer 500 ''oops''))
            ''PUT'' ''https://exchange/v1'' ''node'' '''' [200] (Other True)) = Fatal HTTP_ERROR
   \<and> fst (ExchangeDelete (sample_world [] False (answer 500 ''oops''))
            ''https://exchange/v1'' ''node'' '''' [200]) = Fatal HTTP_ERROR
   \<and> fst (ExchangeGet sample_json (sample_world [] False (answer 500 ''oops''))
            ''https://exchange/v1'' ''node'' '''' [200] (PtrOther ())) = Fatal HTTP_ERROR
   \<and> ReadAll \<lparr>StatusCode = 200, Body = '''', BodyErr = Some ''unexpected EOF''\<rparr>
       = Inl ''unexpected EOF''
   \<and> fst (HorizonGet sample_json
            (sample_world [] False
               (Inr \<lparr>StatusCode = 200, Body = '''', BodyErr = Some ''unexpected EOF''\<rparr>))
            ''node'' [200] (PtrOther ()) True)
       = Return (200,
           Some ''Failed to read body response from GET http://localhost/node: unexpected EOF'',
           Unchanged)
   \<and> fst (HorizonGet sample_json
            (sample_world [] False
               (Inr \<lparr>StatusCode = 200, Body = '''', BodyErr = Some ''unexpected EOF''\<rparr>))
            ''node'' [200] (PtrOther ()) False) = Fatal HTTP_ERROR
   \<and> fst (ExchangeGet sample_json
            (sample_world [] False
               (Inr \<lparr>StatusCode = 200, Body = '''', BodyErr = Some ''unexpected EOF''\<rparr>))
            ''https://exchange/v1'' ''node'' '''' [200] (PtrOther ())) = Fatal HTTP_ERROR
   \<and> Unmarshal sample_json ''{bad'' (PtrOther ())
       = Inl ''json: cannot unmarshal into Go value of type bool''
   \<and> fst (HorizonGet sample_json (sample_world [] False (answer 200 ''{bad''))
            ''node'' [200] (PtrOther ()) True)
       = Return (200,
           Some ''Failed to unmarshal body response from GET http://localhost/node: json: cannot unmarshal into Go value of type bool'',
           Unchanged)
   \<and> fst (HorizonGet sample_json (sample_world [] False (answer 200 ''{bad''))
            ''node'' [200] (PtrOther ()) False) = Fatal JSON_PARSING_ERROR
   \<and> fst (ExchangeGet sample_json (sample_world [] False (answer 200 ''{bad''))
            ''https://exchange/v1'' ''node'' '''' [200] (PtrOther ())) = Fatal JSON_PARSING_ERROR
   \<and> ReadAll \<lparr>StatusCode = 201, Body = ''part'', BodyErr = Some ''unexpected EOF''\<rparr>
       = Inl ''unexpected EOF''
   \<and> isGoodCode 201 [201]
   \<and> fst (HorizonPutPost sample_json
            (sample_world [] False
               (Inr \<lparr>StatusCode = 201, Body = ''part'', BodyErr = Some ''unexpected EOF''\<rparr>))
            ''PUT'' ''node'' [201] (Other True)) = Return (201, ''part'')
   \<and> fst (HorizonDelete
            (sample_world [] False
               (Inr \<lparr>StatusCode = 201, Body = ''part'', BodyErr = Some ''unexpected EOF''\<rparr>))
            ''node'' [201]) = Return 201
   \<and> fst (ExchangePutPost sample_json
            (sample_world [] False
               (Inr \<lparr>StatusCode = 201, Body = ''part'', BodyErr = Some ''unexpected EOF''\<rparr>))
            ''PUT'' ''https://exchange/v1'' ''node'' '''' [201] (Other True)) = Return 201
   \<and> fst (ExchangeDelete
            (sample_world [] False
               (Inr \<lparr>StatusCode = 201, Body = ''part'', BodyErr = Some ''unexpected EOF''\<rparr>))
            ''https://exchange/v1'' ''node'' '''' [201]) = Return 201"
  using errors_returned_only_in_quiet_mode
      [where w = "sample_world [] False (Inl ''connection refused'')"
         and urlSuffix = "''node''" and err = "''connection refused''"
         and evs = "[Constructed \<lparr>Method = ''GET'', URL = ''http://localhost/node'', Header = [],
                       ReqBody = None\<rparr>,
                     Sent \<lparr>Method = ''GET'', URL = ''http://localhost/node'', Header = [],
                       ReqBody = None\<rparr>]"
         and j = sample_json and goodHttpCodes = "[200]" and target = "PtrOther ()"
         and verb = "''PUT''" and body = "Other True"
         and urlBase = "''https://exchange/v1''" and credentials = "''''"
         and reqD = "\<lparr>Method = ''DELETE'', URL = ''http://localhost/node'', Header = [],
                       ReqBody = None\<rparr>"
         and reqP = "\<lparr>Method = ''PUT'', URL = ''http://localhost/node'',
                       Header = [(''Accept'', ''application/json''),
                                 (''Content-Type'', ''application/json'')],
                       ReqBody = Some ''true''\<rparr>"
         and reqEP = "\<lparr>Method = ''PUT'', URL = ''https://exchange/v1/node'',
                       Header = [(''Accept'', ''application/json''),
                                 (''Content-Type'', ''application/json'')],
                       ReqBody = Some ''true''\<rparr>"
         and reqED = "\<lparr>Method = ''DELETE'', URL = ''https://exchange/v1/node'',
                       Header = [(''Authorization'', ''Basic '')], ReqBody = None\<rparr>"
         and reqG = "\<lparr>Method = ''GET'', URL = ''https://exchange/v1/node'',
                       Header = [(''Accept'', ''application/json'')], ReqBody = None\<rparr>"]
    errors_returned_only_in_quiet_mode
      [where w = "sample_world [] False (answer 500 ''oops'')"
         and urlSuffix = "''node''"
         and resp = "\<lparr>StatusCode = 500, Body = ''oops'', BodyErr = None\<rparr>"
         and evs = "[Constructed \<lparr>Method = ''GET'', URL = ''http://localhost/node'', Header = [],
                       ReqBody = None\<rparr>,
                     Sent \<lparr>Method = ''GET'', URL = ''http://localhost/node'', Header = [],
                       ReqBody = None\<rparr>]"
         and j = sample_json and goodHttpCodes = "[200]" and target = "PtrOther ()"
         and verb = "''PUT''" and body = "Other True"
         and urlBase = "''https://exchange/v1''" and credentials = "''''"
         and reqD = "\<lparr>Method = ''DELETE'', URL = ''http://localhost/node'', Header = [],
                       ReqBody = None\<rparr>"
         and reqP = "\<lparr>Method = ''PUT'', URL = ''http://localhost/node'',
                       Header = [(''Accept'', ''application/json''),
                                 (''Content-Type'', ''application/json'')],
                       ReqBody = Some ''true''\<rparr>"
         and reqEP = "\<lparr>Method = ''PUT'', URL = ''https://exchange/v1/node'',
                       Header = [(''Accept'', ''application/json''),
                                 (''Content-Type'', ''application/json'')],
                       ReqBody = Some ''true''\<rparr>"
         and reqED = "\<lparr>Method = ''DELETE'', URL = ''https://exchange/v1/node'',
                       Header = [(''Authorization'', ''Basic '')], ReqBody = None\<rparr>"
         and reqG = "\<lparr>Method = ''GET'', URL = ''https://exchange/v1/node'',
                       Header = [(''Accept'', ''application/json'')], ReqBody = None\<rparr>"]
    errors_returned_only_in_quiet_mode
      [where w = "sample_world [] False
                    (Inr \<lparr>StatusCode = 200, Body = '''', BodyErr = Some ''unexpected EOF''\<rparr>)"
         and urlSuffix = "''node''" and err = "''unexpected EOF''"
         and resp = "\<lparr>StatusCode = 200, Body = '''', BodyErr = Some ''unexpected EOF''\<rparr>"
         and evs = "[Constructed \<lparr>Method = ''GET'', URL = ''http://localhost/node'', Header = [],
                       ReqBody = None\<rparr>,
                     Sent \<lparr>Method = ''GET'', URL = ''http://localhost/node'', Header = [],
                       ReqBody = None\<rparr>]"
         and j = sample_json and goodHttpCodes = "[200]" and target = "PtrOther ()"
         and urlBase = "''https://exchange/v1''" and credentials = "''''"
         and reqG = "\<lparr>Method = ''GET'', URL = ''https://exchange/v1/node'',
                       Header = [(''Accept'', ''application/json'')], ReqBody = None\<rparr>"]
    errors_returned_only_in_quiet_mode
      [where w = "sample_world [] False (answer 200 ''{bad'')"
         and urlSuffix = "''node''"
         and err = "''json: cannot unmarshal into Go value of type bool''"
         and resp = "\<lparr>StatusCode = 200, Body = ''{bad'', BodyErr = None\<rparr>"
         and bodyBytes = "''{bad''" and d = "()"
         and evs = "[Constructed \<lparr>Method = ''GET'', URL = ''http://localhost/node'', Header = [],
                       ReqBody = None\<rparr>,
                     Sent \<lparr>Method = ''GET'', URL = ''http://localhost/node'', Header = [],
                       ReqBody = None\<rparr>]"
         and j = sample_json and goodHttpCodes = "[200]" and target = "PtrOther ()"
         and urlBase = "''https://exchange/v1''" and credentials = "''''"
         and reqG = "\<lparr>Method = ''GET'', URL = ''https://exchange/v1/node'',
                       Header = [(''Accept'', ''application/json'')], ReqBody = None\<rparr>"]
    errors_returned_only_in_quiet_mode
      [where w = "sample_world [] False
                    (Inr \<lparr>StatusCode = 201, Body = ''part'', BodyErr = Some ''unexpected EOF''\<rparr>)"
         and urlSuffix = "''node''"
         and resp = "\<lparr>StatusCode = 201, Body = ''part'', BodyErr = Some ''unexpected EOF''\<rparr>"
         and j = sample_json and goodHttpCodes = "[201]" and target = "PtrOther ()"
         and verb = "''PUT''" and body = "Other True"
         and urlBase = "''https://exchange/v1''" and credentials = "''''"
         and reqD = "\<lparr>Method = ''DELETE'', URL = ''http://localhost/node'', Header = [],
                       ReqBody = None\<rparr>"
         and reqP = "\<lparr>Method = ''PUT'', URL = ''http://localhost/node'',
                       Header = [(''Accept'', ''application/json''),
                                 (''Content-Type'', ''application/json'')],
                       ReqBody = Some ''true''\<rparr>"
         and reqEP = "\<lparr>Method = ''PUT'', URL = ''https://exchange/v1/node'',
                       Header = [(''Accept'', ''application/json''),
                                 (''Content-Type'', ''application/json'')],
                       ReqBody = Some ''true''\<rparr>"
         and reqED = "\<lparr>Method = ''DELETE'', URL = ''https://exchange/v1/node'',
                       Header = [(''Authorization'', ''Basic '')], ReqBody = None\<rparr>"]
  by (simp add: HorizonGet_def HorizonGet_response_def HorizonDelete_def HorizonPutPost_def
      HorizonPutPost_body_def ExchangeGet_def ExchangeGet_response_def ExchangeGet_decode_def
      ExchangePutPost_def ExchangePutPost_body_def ExchangeDelete_def sample_defs)


end
